theory Spec2Isabelle
  imports Complex_Main "HOL-Library.AList"
begin

section \<open>Errors\<close>

text \<open>
  Every \<^verbatim>\<open>raise\<close> of \<^verbatim>\<open>shamo/core/fem/fem.py\<close> and every exception of the Python
  runtime or of numpy that the modelled paths can reach is a value of \<open>error\<close>. The
  \<open>reason\<close> names the place that raised. A function that can raise returns
  \<open>error + 'a\<close>, \<open>Inl\<close> being the exception. What a call that raised has done
  before is not part of its result. The mesh file and the saved model are written after
  the last statement that can raise.
\<close>

datatype reason =
    LabelsNot3D            \<comment> \<open>"Argument 'labels' must be a 3D array."\<close>
  | AffineShape            \<comment> \<open>"Argument 'affine' expects shape (3,4) or (4,4)."\<close>
  | TissueCount            \<comment> \<open>"Argument 'tissues' must contain as many names as ..."\<close>
  | SensorExists           \<comment> \<open>"Sensor '{name}' already exists in model."\<close>
  | CoordsNot3D            \<comment> \<open>"Argument 'coords' must be a 3D coordinate."\<close>
  | TissueNotFound         \<comment> \<open>"Tissue '{tissue}' not found in model."\<close>
  | FieldExists            \<comment> \<open>"Field '{name}' already exists in tissue '{tissue}'."\<close>
  | ValsArity              \<comment> \<open>"Argument 'elems_vals' must contain scalar, vector or tensor values."\<close>
  | FillValType            \<comment> \<open>"Argument 'fill_val' expects numpy.ndarray or Iterable."\<close>
  | FillValArity           \<comment> \<open>"Argument 'fill_val' must be of the same type and size as 'elems_vals'."\<close>
  | FieldShape             \<comment> \<open>"Argument 'field' must be a 3D or 4D array containing ..."\<close>
  | EmptySequence          \<comment> \<open>numpy and Python: \<^verbatim>\<open>max\<close>, \<^verbatim>\<open>argmin\<close> or \<^verbatim>\<open>hstack\<close> of nothing\<close>
  | Columns                \<comment> \<open>scipy \<^verbatim>\<open>cdist\<close>: the two arrays differ in their number of columns\<close>
  | Broadcast              \<comment> \<open>numpy: shapes that cannot be broadcast together\<close>
  | Reshape                \<comment> \<open>numpy: cannot reshape an array of this size\<close>
  | GridShape              \<comment> \<open>scipy: "There are n points and m values in dimension i"\<close>
  | NotAscending           \<comment> \<open>scipy: "The points in dimension i must be strictly ascending"\<close>
  | OutOfBounds            \<comment> \<open>scipy: "One of the requested xi is out of bounds in dimension i"\<close>

datatype error =
    TypeError reason
  | ValueError reason
  | KeyError reason
  | NameError string
  | UnboundLocalError string
  | AttributeError string
  | IndexError
  | ZeroDivisionError
  | BackendError

section \<open>Data model\<close>

type_synonym vec3 = "real \<times> real \<times> real"

text \<open>
  Modelled from the spec: the classes \<^verbatim>\<open>Group\<close>, \<^verbatim>\<open>Tissue\<close>, \<^verbatim>\<open>Field\<close> and
  \<^verbatim>\<open>PointSensor\<close> are imported by \<^verbatim>\<open>fem.py\<close> from the package \<^verbatim>\<open>shamo.core.fem\<close>,
  whose \<^verbatim>\<open>__init__\<close> is not part of the sources. The spec (section 3) gives their
  attributes; the argument order is the one of the constructor calls in \<^verbatim>\<open>fem.py\<close>:
  \<^verbatim>\<open>Group(dim, entities, group)\<close>, \<^verbatim>\<open>Tissue(surf, vol)\<close> with an empty field mapping,
  \<^verbatim>\<open>Field(field_type, view, formula)\<close> and
  \<^verbatim>\<open>PointSensor(tissue, coords, mesh_coords, point, node)\<close>.
  A Python \<^verbatim>\<open>dict\<close> is an association list: \<open>map_of\<close> looks a key up and
  \<open>AList.update\<close> stores a value, in place when the key is there and at the end
  otherwise, as the insertion order of a \<^verbatim>\<open>dict\<close> does.
\<close>

datatype group = Group (group_dim: int) (group_entities: "int list") (group_tag: int)

datatype field_type = SCALAR | VECTOR | TENSOR

datatype field = Field (field_kind: field_type) (field_view: int) (field_formula: string)

datatype tissue = Tissue (surf: group) (vol: group) (fields: "(string \<times> field) list")

datatype sensor =
  PointSensor (sensor_tissue: string) (sensor_coords: "real list") (sensor_mesh_coords: vec3)
    (sensor_point: group) (sensor_node: int)

subsection \<open>The mesh backend\<close>

text \<open>
  The state of the gmsh session, which is also what \<^verbatim>\<open>gmsh.write\<close> stores in the mesh
  file and \<^verbatim>\<open>gmsh.open\<close> reads back: the nodes of every entity with their coordinates
  (three per node, as \<^verbatim>\<open>getNodes(dim, e, True)\<close> returns them, so the flat array
  reshaped to \<^verbatim>\<open>(-1, 3)\<close> is the list of triples), the element tags and barycenters of
  every entity, the discrete entities, the point elements (type 15), the physical groups
  in creation order (dimension and tag, with the entities and the name of each) and the
  views. A coordinate is the real number that its 64-bit float denotes.
\<close>

record gmsh_model =
  nodes_of :: "int \<times> int \<Rightarrow> (int \<times> vec3) list"
  elems_of :: "int \<times> int \<Rightarrow> int list"
  barycenters_of :: "int \<times> int \<Rightarrow> vec3 list"
  discrete_entities :: "(int \<times> int) list"
  point_elements :: "(int \<times> int list) list"
  physical_groups :: "((int \<times> int) \<times> int list \<times> string) list"
  views :: "(int \<times> string \<times> int list \<times> real list list) list"

text \<open>\<^verbatim>\<open>gmsh.model.getPhysicalGroups(-1)\<close>: the (dim, tag) pairs of all dimensions.\<close>

definition getPhysicalGroups :: "gmsh_model \<Rightarrow> (int \<times> int) list" where
  "getPhysicalGroups m = map fst (physical_groups m)"

text \<open>
  \<^verbatim>\<open>gmsh.model.addPhysicalGroup(dim, tags, tag)\<close>. Without a tag (\<open>None\<close> here, -1 in
  gmsh) the backend numbers the group itself: one more than the largest tag in use.
  With a tag, the backend refuses a group that exists in that dimension.
\<close>

definition max_tag :: "int list \<Rightarrow> int" where
  "max_tag ts = fold max ts 0"

definition addPhysicalGroup ::
  "int \<Rightarrow> int list \<Rightarrow> int option \<Rightarrow> gmsh_model \<Rightarrow> error + (int \<times> gmsh_model)" where
  "addPhysicalGroup d ents tag m =
     (let t = (case tag of None \<Rightarrow> max_tag (map snd (getPhysicalGroups m)) + 1 | Some t \<Rightarrow> t)
      in if (d, t) \<in> set (getPhysicalGroups m) then Inl BackendError
         else Inr (t, m\<lparr>physical_groups := physical_groups m @ [((d, t), ents, [])]\<rparr>))"

text \<open>\<^verbatim>\<open>gmsh.model.setPhysicalName(dim, tag, name)\<close>.\<close>

definition setPhysicalName :: "int \<Rightarrow> int \<Rightarrow> string \<Rightarrow> gmsh_model \<Rightarrow> gmsh_model" where
  "setPhysicalName d t name m =
     m\<lparr>physical_groups :=
         map (\<lambda>(k, ents, n). if k = (d, t) then (k, ents, name) else (k, ents, n))
           (physical_groups m)\<rparr>"

text \<open>\<^verbatim>\<open>gmsh.model.addDiscreteEntity(0)\<close>: a new entity, numbered after the largest of its dimension.\<close>

definition addDiscreteEntity :: "int \<Rightarrow> gmsh_model \<Rightarrow> int \<times> gmsh_model" where
  "addDiscreteEntity d m =
     (let e = max_tag (map snd (filter (\<lambda>(d', _). d' = d) (discrete_entities m))) + 1
      in (e, m\<lparr>discrete_entities := discrete_entities m @ [(d, e)]\<rparr>))"

text \<open>\<^verbatim>\<open>gmsh.model.mesh.addNodes(dim, entity, [tag], coords)\<close> with one node.\<close>

definition addNodes :: "int \<Rightarrow> int \<Rightarrow> int \<Rightarrow> vec3 \<Rightarrow> gmsh_model \<Rightarrow> gmsh_model" where
  "addNodes d e node_tag c m =
     m\<lparr>nodes_of := (nodes_of m)((d, e) := nodes_of m (d, e) @ [(node_tag, c)])\<rparr>"

text \<open>\<^verbatim>\<open>gmsh.model.mesh.addElementsByType(entity, 15, [], [node_tag])\<close>: one point element.\<close>

definition addElementsByType :: "int \<Rightarrow> int list \<Rightarrow> gmsh_model \<Rightarrow> gmsh_model" where
  "addElementsByType e node_tags m = m\<lparr>point_elements := point_elements m @ [(e, node_tags)]\<rparr>"

subsection \<open>Arrays\<close>

text \<open>
  A \<^verbatim>\<open>numpy.ndarray\<close>: its shape and its elements in C order (\<^verbatim>\<open>ravel()\<close>);
  \<^verbatim>\<open>ndim\<close> is the length of the shape and \<^verbatim>\<open>size\<close> the number of elements. A matrix
  such as the affine is the list of its rows.
\<close>

datatype 'a ndarray = NDArray (shape_of: "nat list") (ravel: "'a list")

subsection \<open>The model object\<close>

text \<open>
  \<^verbatim>\<open>FEM\<close>: the tissue and sensor registries (\<^verbatim>\<open>self["tissues"]\<close>,
  \<^verbatim>\<open>self["sensors"]\<close>), the mesh file at \<^verbatim>\<open>self.mesh_path\<close>, held as the backend
  state it stores, and the image file at \<^verbatim>\<open>self.nii_path\<close> (labels and affine) once
  one is written. The mesh parameters, which are handed to the mesher and recorded as
  they are, are left out.
\<close>

record fem =
  tissues :: "(string \<times> tissue) list"
  sensors :: "(string \<times> sensor) list"
  mesh_file :: gmsh_model
  nii_file :: "(int ndarray \<times> real list list) option"

section \<open>Sensors\<close>

text \<open>
  \<^verbatim>\<open>_get_tissue_nodes(tissue, dim)\<close>; the argument \<^verbatim>\<open>dim\<close> is \<open>d\<close> here and
  below. A \<open>d\<close> other than 2 and 3 leaves \<^verbatim>\<open>entities\<close> unbound; the debug message
  reads \<^verbatim>\<open>nodes[0]\<close>, which fails when the group has no entity.
\<close>

definition get_tissue_nodes ::
  "fem \<Rightarrow> gmsh_model \<Rightarrow> string \<Rightarrow> int \<Rightarrow> error + (int list \<times> vec3 list)" where
  "get_tissue_nodes self m tissue d =
     (if d \<noteq> 2 \<and> d \<noteq> 3 then Inl (UnboundLocalError ''entities'')
      else case map_of (tissues self) tissue of
        None \<Rightarrow> Inl (KeyError TissueNotFound)
      | Some t \<Rightarrow>
          (let entities = group_entities (if d = 2 then surf t else vol t);
               nodes = map (\<lambda>e. nodes_of m (d, e)) entities
           in if nodes = [] then Inl IndexError
              else Inr (concat (map (map fst) nodes), concat (map (map snd) nodes))))"

text \<open>
  Double precision. The coordinates of the sensor code are 64-bit floats. A finite
  double is held as the real number it denotes, and doubles compare as these reals do;
  NaN and the infinities are left out. The two operations of the sensor code that
  round are arguments of the model and are not fixed by it: \<open>mul_milli c\<close> is the
  product \<^verbatim>\<open>1e-3 * c\<close> of line 492 and 541 as binary64 computes it, and
  \<open>cdist_row p q\<close> is the Euclidean distance of two rows as \<^verbatim>\<open>cdist\<close> of scipy
  computes it in line 597.
\<close>

record float_ops =
  mul_milli :: "real \<Rightarrow> real"
  cdist_row :: "vec3 \<Rightarrow> vec3 \<Rightarrow> real"

text \<open>
  The exact Euclidean distance, which \<open>cdist_row\<close> approximates, and the double
  nearest to 1/1000, which is the value of the literal \<^verbatim>\<open>1e-3\<close>.
\<close>

definition euclidean :: "vec3 \<Rightarrow> vec3 \<Rightarrow> real" where
  "euclidean p q =
     (case p of (a, b, c) \<Rightarrow> case q of (x, y, z) \<Rightarrow>
        sqrt ((a - x)\<^sup>2 + (b - y)\<^sup>2 + (c - z)\<^sup>2))"


text \<open>
  \<^verbatim>\<open>cdist([coords], nodes_coords).ravel()\<close>: the computed distances from one point to
  the rows of \<^verbatim>\<open>nodes_coords\<close>, which has three columns.
\<close>

definition cdist :: "float_ops \<Rightarrow> real list \<Rightarrow> vec3 list \<Rightarrow> error + real list" where
  "cdist fp coords nodes_coords =
     (case coords of
        [a, b, c] \<Rightarrow> Inr (map (cdist_row fp (a, b, c)) nodes_coords)
      | _ \<Rightarrow> Inl (ValueError Columns))"

text \<open>
  \<^verbatim>\<open>np.argmin\<close>: one pass that keeps the index of the smallest value seen and replaces
  it only by a strictly smaller one.
\<close>

fun argmin_from :: "nat \<Rightarrow> real \<Rightarrow> nat \<Rightarrow> real list \<Rightarrow> nat" where
  "argmin_from best v i [] = best"
| "argmin_from best v i (x # xs) =
     (if x < v then argmin_from i x (Suc i) xs else argmin_from best v (Suc i) xs)"

definition argmin :: "real list \<Rightarrow> error + nat" where
  "argmin xs = (case xs of [] \<Rightarrow> Inl (ValueError EmptySequence)
                | x # rest \<Rightarrow> Inr (argmin_from 0 x 1 rest))"

text \<open>Python's \<^verbatim>\<open>max\<close> of a list.\<close>

definition py_max :: "int list \<Rightarrow> error + int" where
  "py_max xs = (case xs of [] \<Rightarrow> Inl (ValueError EmptySequence)
                | x # rest \<Rightarrow> Inr (fold max rest x))"

text \<open>\<^verbatim>\<open>_add_point_sensor_on_node(name, node_tag, node_coords)\<close>.\<close>

definition add_point_sensor_on_node ::
  "string \<Rightarrow> int \<Rightarrow> vec3 \<Rightarrow> gmsh_model \<Rightarrow> error + ((int \<times> int) \<times> gmsh_model)" where
  "add_point_sensor_on_node name node_tag node_coords m =
     (case addDiscreteEntity 0 m of (entity, m1) \<Rightarrow>
        let m2 = addNodes 0 entity node_tag node_coords m1;
            m3 = addElementsByType entity [node_tag] m2
        in case py_max (map snd (getPhysicalGroups m3)) of
             Inl e \<Rightarrow> Inl e
           | Inr max_group \<Rightarrow>
               (case addPhysicalGroup 0 [entity] (Some (max_group + 1)) m3 of
                  Inl e \<Rightarrow> Inl e
                | Inr (grp, m4) \<Rightarrow> Inr ((entity, grp), setPhysicalName 0 grp name m4)))"

text \<open>
  \<^verbatim>\<open>_add_point_sensor(name, coords, nodes_tags, nodes_coords, tissue)\<close>. The two arrays
  come from \<open>get_tissue_nodes\<close>; an index past the tags is an \<^verbatim>\<open>IndexError\<close>.
\<close>

definition add_point_sensor_to ::
  "float_ops \<Rightarrow> string \<Rightarrow> real list \<Rightarrow> int list \<Rightarrow> vec3 list \<Rightarrow> string \<Rightarrow>
   (string \<times> sensor) list \<times> gmsh_model \<Rightarrow> error + ((string \<times> sensor) list \<times> gmsh_model)" where
  "add_point_sensor_to fp name coords nodes_tags nodes_coords tissue st =
     (case st of (sens, m) \<Rightarrow>
      case cdist fp coords nodes_coords of
        Inl e \<Rightarrow> Inl e
      | Inr dists \<Rightarrow>
          (case argmin dists of
             Inl e \<Rightarrow> Inl e
           | Inr min_dist_idx \<Rightarrow>
               if length nodes_tags \<le> min_dist_idx then Inl IndexError
               else
                 let node_tag = nodes_tags ! min_dist_idx;
                     mesh_coords = nodes_coords ! min_dist_idx
                 in case add_point_sensor_on_node name node_tag mesh_coords m of
                      Inl e \<Rightarrow> Inl e
                    | Inr ((entity, grp), m') \<Rightarrow>
                        Inr (AList.update name
                               (PointSensor tissue coords mesh_coords
                                  (Group 0 [entity] grp) node_tag) sens, m')))"

text \<open>
  \<^verbatim>\<open>add_point_sensor(name, coords, tissue, dim)\<close>. \<open>remove_duplicate_nodes\<close> is the
  backend's \<^verbatim>\<open>gmsh.model.mesh.removeDuplicateNodes()\<close>. The millimetres become metres
  by the product \<^verbatim>\<open>1e-3 * c\<close> in double precision.
\<close>

definition add_point_sensor ::
  "float_ops \<Rightarrow> (gmsh_model \<Rightarrow> gmsh_model) \<Rightarrow> fem \<Rightarrow> string \<Rightarrow> real list \<Rightarrow> string \<Rightarrow> int \<Rightarrow>
   error + fem" where
  "add_point_sensor fp remove_duplicate_nodes self name coords tissue d =
     (if map_of (sensors self) name \<noteq> None then Inl (ValueError SensorExists)
      else if length coords \<noteq> 3 then Inl (ValueError CoordsNot3D)
      else
        let coords = map (mul_milli fp) coords
        in if map_of (tissues self) tissue = None then Inl (ValueError TissueNotFound)
           else
             let m = mesh_file self
             in case get_tissue_nodes self m tissue d of
                  Inl e \<Rightarrow> Inl e
                | Inr (nodes_tags, nodes_coords) \<Rightarrow>
                    (case add_point_sensor_to fp name coords nodes_tags nodes_coords tissue
                            (sensors self, m) of
                       Inl e \<Rightarrow> Inl e
                     | Inr (sens, m') \<Rightarrow>
                         Inr (self\<lparr>sensors := sens,
                                   mesh_file := remove_duplicate_nodes m'\<rparr>)))"

text \<open>
  \<^verbatim>\<open>add_point_sensors(coords, tissue, dim)\<close>: the batch variant. \<open>coords\<close> is a mapping
  from sensor names to coordinates, walked in its order; the nodes are read once.
\<close>

fun add_point_sensors_loop ::
  "float_ops \<Rightarrow> (string \<times> real list) list \<Rightarrow> int list \<Rightarrow> vec3 list \<Rightarrow> string \<Rightarrow>
   (string \<times> sensor) list \<times> gmsh_model \<Rightarrow> error + ((string \<times> sensor) list \<times> gmsh_model)" where
  "add_point_sensors_loop fp [] nodes_tags nodes_coords tissue st = Inr st"
| "add_point_sensors_loop fp ((s, c) # rest) nodes_tags nodes_coords tissue st =
     (case add_point_sensor_to fp s c nodes_tags nodes_coords tissue st of
        Inl e \<Rightarrow> Inl e
      | Inr st' \<Rightarrow> add_point_sensors_loop fp rest nodes_tags nodes_coords tissue st')"

definition add_point_sensors ::
  "float_ops \<Rightarrow> (gmsh_model \<Rightarrow> gmsh_model) \<Rightarrow> fem \<Rightarrow> (string \<times> real list) list \<Rightarrow> string \<Rightarrow>
   int \<Rightarrow> error + fem" where
  "add_point_sensors fp remove_duplicate_nodes self coords tissue d =
     (let coords = map (\<lambda>(s, c). (s, map (mul_milli fp) c)) coords
      in if map_of (tissues self) tissue = None then Inl (ValueError TissueNotFound)
         else
           let m = mesh_file self
           in case get_tissue_nodes self m tissue d of
                Inl e \<Rightarrow> Inl e
              | Inr (nodes_tags, nodes_coords) \<Rightarrow>
                  (case add_point_sensors_loop fp coords nodes_tags nodes_coords tissue
                          (sensors self, m) of
                     Inl e \<Rightarrow> Inl e
                   | Inr (sens, m') \<Rightarrow>
                       Inr (self\<lparr>sensors := sens,
                                 mesh_file := remove_duplicate_nodes m'\<rparr>)))"

section \<open>Mesh generation\<close>

text \<open>\<^verbatim>\<open>astype(np.uint8)\<close> and \<^verbatim>\<open>astype(np.uint16)\<close> on an integer: the value modulo \<open>2^8\<close>, \<open>2^16\<close>.\<close>

definition astype_uint8 :: "int \<Rightarrow> int" where
  "astype_uint8 v = v mod 256"

definition astype_uint16 :: "int \<Rightarrow> int" where
  "astype_uint16 v = v mod 65536"

text \<open>\<^verbatim>\<open>affine.shape in ((3, 4), (4, 4))\<close>.\<close>

definition affine_shape_ok :: "real list list \<Rightarrow> bool" where
  "affine_shape_ok affine =
     ((length affine = 3 \<or> length affine = 4) \<and> list_all (\<lambda>row. length row = 4) affine)"

text \<open>
  \<^verbatim>\<open>np.diag([1e-3] * 3 + [1]) @ np.vstack((affine[:3, :], np.array([0, 0, 0, 1])))\<close>:
  the first three rows scaled from millimetres to metres, above the row \<^verbatim>\<open>[0, 0, 0, 1]\<close>.
\<close>

definition to_metres :: "real list list \<Rightarrow> real list list" where
  "to_metres affine = map (map (\<lambda>v. v / 1000)) (take 3 affine) @ [[0, 0, 0, 1]]"

text \<open>\<^verbatim>\<open>np.max\<close> of an integer array; numpy refuses an array without elements.\<close>

definition np_max :: "int ndarray \<Rightarrow> error + int" where
  "np_max a = py_max (ravel a)"

text \<open>
  The validation phase of \<^verbatim>\<open>mesh_from_array(labels, affine, tissues)\<close> (lines 184 to
  206), which returns the three local variables as the rest of the function sees them.
  The \<^verbatim>\<open>isinstance\<close> checks hold by typing. The argument \<^verbatim>\<open>tissues\<close> is
  \<open>tissue_names\<close> here.
\<close>

definition mesh_from_array_checks ::
  "int ndarray \<Rightarrow> real list list \<Rightarrow> string list \<Rightarrow>
   error + (int ndarray \<times> real list list \<times> string list)" where
  "mesh_from_array_checks labels affine tissue_names =
     (let labels = NDArray (shape_of labels) (map astype_uint8 (ravel labels))
      in if length (shape_of labels) \<noteq> 3 then Inl (ValueError LabelsNot3D)
         else if \<not> affine_shape_ok affine then Inl (ValueError AffineShape)
         else
           let affine = to_metres affine
           in case np_max labels of
                Inl e \<Rightarrow> Inl e
              | Inr mx \<Rightarrow>
                  if int (length tissue_names) \<noteq> mx then Inl (ValueError TissueCount)
                  else Inr (labels, affine, tissue_names))"

text \<open>
  \<^verbatim>\<open>_add_tissues(tissues, tmp_dir)\<close>, on the mesh that \<^verbatim>\<open>gmsh.merge\<close> read: the loop
  over \<^verbatim>\<open>enumerate(tissues)\<close>, \<open>l\<close> being the index.
\<close>

fun add_tissues_loop ::
  "nat \<Rightarrow> string list \<Rightarrow> (string \<times> tissue) list \<times> gmsh_model \<Rightarrow>
   error + ((string \<times> tissue) list \<times> gmsh_model)" where
  "add_tissues_loop l [] st = Inr st"
| "add_tissues_loop l (t # rest) st =
     (let entity = int l + 1
      in case addPhysicalGroup 2 [entity] None (snd st) of
           Inl e \<Rightarrow> Inl e
         | Inr (surf_group, m1) \<Rightarrow>
             (let m2 = setPhysicalName 2 surf_group t m1
              in case addPhysicalGroup 3 [entity] None m2 of
                   Inl e \<Rightarrow> Inl e
                 | Inr (vol_group, m3) \<Rightarrow>
                     (let m4 = setPhysicalName 3 vol_group t m3
                      in add_tissues_loop (Suc l) rest
                           (AList.update t
                              (Tissue (Group 2 [entity] surf_group) (Group 3 [entity] vol_group) [])
                              (fst st), m4))))"

definition add_tissues ::
  "string list \<Rightarrow> (string \<times> tissue) list \<times> gmsh_model \<Rightarrow>
   error + ((string \<times> tissue) list \<times> gmsh_model)" where
  "add_tissues tissue_names st = add_tissues_loop 0 tissue_names st"

text \<open>
  \<^verbatim>\<open>nib.affines.voxel_sizes\<close>: the Euclidean norms of the three columns of the upper
  left block.
\<close>

definition voxel_sizes :: "real list list \<Rightarrow> real list" where
  "voxel_sizes affine =
     map (\<lambda>j. sqrt ((affine ! 0 ! j)\<^sup>2 + (affine ! 1 ! j)\<^sup>2 + (affine ! 2 ! j)\<^sup>2)) [0, 1, 2]"

definition eye4 :: "real list list" where
  "eye4 = [[1, 0, 0, 0], [0, 1, 0, 0], [0, 0, 1, 0], [0, 0, 0, 1]]"

text \<open>
  The rest of \<^verbatim>\<open>mesh_from_array\<close> (lines 208 to 218), on the validated variables.
  Three collaborators are arguments: \<open>crop_img\<close> (nilearn) crops the image to its
  nonzero voxels, \<open>generate_from_array\<close> is the mesher with the conversion that gmsh
  merges (\<^verbatim>\<open>_gen_init_mesh\<close>), and \<open>transform\<close> is the Transform plugin of gmsh,
  which \<^verbatim>\<open>_apply_transform\<close> gives the upper three rows of the affine.
\<close>

definition mesh_from_array_build ::
  "(int ndarray \<times> real list list \<Rightarrow> int ndarray \<times> real list list) \<Rightarrow>
   (int ndarray \<Rightarrow> real list \<Rightarrow> gmsh_model) \<Rightarrow>
   (real list list \<Rightarrow> gmsh_model \<Rightarrow> gmsh_model) \<Rightarrow>
   fem \<Rightarrow> int ndarray \<Rightarrow> real list list \<Rightarrow> string list \<Rightarrow> error + fem" where
  "mesh_from_array_build crop_img generate_from_array transform self labels affine tissue_names =
     (let cropped_img = crop_img (labels, affine);
          labels = NDArray (shape_of (fst cropped_img))
                     (map astype_uint16 (ravel (fst cropped_img)));
          affine = snd cropped_img;
          init_mesh = generate_from_array labels (voxel_sizes eye4);
          init_msh = transform (take 3 affine) init_mesh
      in case add_tissues tissue_names (tissues self, init_msh) of
           Inl e \<Rightarrow> Inl e
         | Inr (ts, m) \<Rightarrow>
             Inr (self\<lparr>tissues := ts, mesh_file := m, nii_file := Some cropped_img\<rparr>))"

text \<open>\<^verbatim>\<open>mesh_from_array(labels, affine, tissues)\<close>: the validation, then the rest.\<close>

definition mesh_from_array ::
  "(int ndarray \<times> real list list \<Rightarrow> int ndarray \<times> real list list) \<Rightarrow>
   (int ndarray \<Rightarrow> real list \<Rightarrow> gmsh_model) \<Rightarrow>
   (real list list \<Rightarrow> gmsh_model \<Rightarrow> gmsh_model) \<Rightarrow>
   fem \<Rightarrow> int ndarray \<Rightarrow> real list list \<Rightarrow> string list \<Rightarrow> error + fem" where
  "mesh_from_array crop_img generate_from_array transform self labels affine tissue_names =
     (case mesh_from_array_checks labels affine tissue_names of
        Inl e \<Rightarrow> Inl e
      | Inr (labels, affine, tissue_names) \<Rightarrow>
          mesh_from_array_build crop_img generate_from_array transform self labels affine
            tissue_names)"

section \<open>Fields\<close>

text \<open>
  \<^verbatim>\<open>_get_tissue_elems(tissue, dim)\<close>: the element tags of the entities, joined by
  \<^verbatim>\<open>np.hstack\<close>, which refuses an empty list.
\<close>

definition get_tissue_elems :: "fem \<Rightarrow> gmsh_model \<Rightarrow> string \<Rightarrow> int \<Rightarrow> error + int list" where
  "get_tissue_elems self m tissue d =
     (if d \<noteq> 2 \<and> d \<noteq> 3 then Inl (UnboundLocalError ''entities'')
      else case map_of (tissues self) tissue of
        None \<Rightarrow> Inl (KeyError TissueNotFound)
      | Some t \<Rightarrow>
          (let entities = group_entities (if d = 2 then surf t else vol t)
           in if entities = [] then Inl (ValueError EmptySequence)
              else Inr (concat (map (\<lambda>e. elems_of m (d, e)) entities))))"

text \<open>
  \<^verbatim>\<open>_get_tissue_elems_coords(tissue, dim)\<close>: the barycenters of the triangles (type 2)
  or of the tetrahedra (type 4) of the entities.
\<close>

definition get_tissue_elems_coords ::
  "fem \<Rightarrow> gmsh_model \<Rightarrow> string \<Rightarrow> int \<Rightarrow> error + vec3 list" where
  "get_tissue_elems_coords self m tissue d =
     (if d \<noteq> 2 \<and> d \<noteq> 3 then Inl (UnboundLocalError ''entities'')
      else case map_of (tissues self) tissue of
        None \<Rightarrow> Inl (KeyError TissueNotFound)
      | Some t \<Rightarrow>
          (let entities = group_entities (if d = 2 then surf t else vol t);
               elems_type = (if d = 2 then 2 else 4)
           in if entities = [] then Inl (ValueError EmptySequence)
              else Inr (concat (map (\<lambda>e. barycenters_of m (elems_type, e)) entities))))"

text \<open>\<^verbatim>\<open>field_types = {1: Field.SCALAR, 3: Field.VECTOR, 9: Field.TENSOR}\<close>.\<close>

definition field_types :: "nat \<Rightarrow> field_type option" where
  "field_types n =
     (if n = 1 then Some SCALAR else if n = 3 then Some VECTOR
      else if n = 9 then Some TENSOR else None)"

text \<open>
  The validation phase of \<^verbatim>\<open>field_from_elems\<close> (lines 658 to 685), which returns
  \<^verbatim>\<open>n_vals\<close>, \<^verbatim>\<open>field_type\<close> and the flattened \<^verbatim>\<open>fill_val\<close>. \<open>elems_vals\<close> is the
  flattened array. \<^verbatim>\<open>int(elems_vals.size / elems_tags.size)\<close> divides two Python
  integers and drops the fraction; no tags at all is a division by zero. A
  \<^verbatim>\<open>fill_val\<close> that is not iterable, as the default \<^verbatim>\<open>None\<close>, is \<open>None\<close>.
\<close>

definition field_from_elems_checks ::
  "fem \<Rightarrow> string \<Rightarrow> string \<Rightarrow> int list \<Rightarrow> real list \<Rightarrow> real list option \<Rightarrow>
   error + (nat \<times> field_type \<times> real list)" where
  "field_from_elems_checks self name tissue elems_tags elems_vals fill_val =
     (case map_of (tissues self) tissue of
        None \<Rightarrow> Inl (KeyError TissueNotFound)
      | Some t \<Rightarrow>
          if map_of (tissue.fields t) name \<noteq> None then Inl (KeyError FieldExists)
          else if length elems_tags = 0 then Inl ZeroDivisionError
          else
            (let n_vals = length elems_vals div length elems_tags
             in case field_types n_vals of
                  None \<Rightarrow> Inl (ValueError ValsArity)
                | Some field_type \<Rightarrow>
                    (case fill_val of
                       None \<Rightarrow> Inl (TypeError FillValType)
                     | Some fill_val \<Rightarrow>
                         if length fill_val \<noteq> n_vals then Inl (ValueError FillValArity)
                         else Inr (n_vals, field_type, fill_val))))"

text \<open>
  \<^verbatim>\<open>np.broadcast_to(np.array(fill_val), (1, n)).ravel()\<close> for a one-dimensional
  \<^verbatim>\<open>fill_val\<close>: numpy repeats a single value and keeps an array of length \<open>n\<close>; it
  refuses every other length.
\<close>

definition broadcast_to_row :: "real list \<Rightarrow> nat \<Rightarrow> error + real list" where
  "broadcast_to_row fill_val n =
     (if length fill_val = n then Inr fill_val
      else if length fill_val = 1 then Inr (replicate n (hd fill_val))
      else Inl (ValueError Broadcast))"

text \<open>
  The argument of the debug message in \<^verbatim>\<open>_fill_empty_field_elems\<close>,
  \<^verbatim>\<open>np.nonzero(empty_elems_idx).size\<close>. Python evaluates it before \<^verbatim>\<open>logger.debug\<close>
  is called; \<^verbatim>\<open>np.nonzero\<close> returns a tuple of arrays, and a tuple has no attribute
  \<^verbatim>\<open>size\<close>.
\<close>

definition nonzero_size :: "bool list \<Rightarrow> error + nat" where
  "nonzero_size idx = Inl (AttributeError ''size'')"

text \<open>
  \<^verbatim>\<open>_fill_empty_field_elems(tissue, elems_tags, elems_vals, n_vals, fill_val)\<close>.
  \<^verbatim>\<open>np.isin(all_elems_tags, elems_tags, assume_unique=True, invert=True)\<close> marks the
  elements of the tissue that are not among \<open>elems_tags\<close>.
\<close>

definition fill_empty_field_elems ::
  "fem \<Rightarrow> gmsh_model \<Rightarrow> string \<Rightarrow> int list \<Rightarrow> real list \<Rightarrow> nat \<Rightarrow> real list \<Rightarrow>
   error + (int list \<times> real list)" where
  "fill_empty_field_elems self m tissue elems_tags elems_vals n_vals fill_val =
     (case get_tissue_elems self m tissue 3 of
        Inl e \<Rightarrow> Inl e
      | Inr all_elems_tags \<Rightarrow>
          (let empty_elems_idx = map (\<lambda>e. e \<notin> set elems_tags) all_elems_tags
           in if list_ex (\<lambda>b. b) empty_elems_idx then
                (case nonzero_size empty_elems_idx of
                   Inl e \<Rightarrow> Inl e
                 | Inr _ \<Rightarrow>
                     (let empty_elems_tags = map fst (filter snd (zip all_elems_tags empty_elems_idx))
                      in case broadcast_to_row fill_val (length empty_elems_tags * n_vals) of
                           Inl e \<Rightarrow> Inl e
                         | Inr empty_elems_vals \<Rightarrow>
                             Inr (elems_tags @ empty_elems_tags, elems_vals @ empty_elems_vals)))
              else Inr (elems_tags, elems_vals)))"

text \<open>\<^verbatim>\<open>elems_vals.reshape((-1, n_vals))\<close>: rows of \<open>n_vals\<close> values.\<close>

definition reshape_rows :: "real list \<Rightarrow> nat \<Rightarrow> error + real list list" where
  "reshape_rows vals n =
     (if n = 0 \<or> length vals mod n \<noteq> 0 then Inl (ValueError Reshape)
      else Inr (map (\<lambda>i. take n (drop (i * n) vals)) [0..<length vals div n]))"

text \<open>
  \<^verbatim>\<open>_add_field_view(name, tissue, elems_tags, elems_vals, n_vals)\<close>.
  \<^verbatim>\<open>gmsh.view.add\<close> numbers the new view after the largest one, and
  \<^verbatim>\<open>gmsh.view.addModelData\<close> refuses tags and data of different lengths.
\<close>

definition add_field_view ::
  "string \<Rightarrow> string \<Rightarrow> int list \<Rightarrow> real list \<Rightarrow> nat \<Rightarrow> gmsh_model \<Rightarrow>
   error + (int \<times> gmsh_model)" where
  "add_field_view name tissue elems_tags elems_vals n_vals m =
     (let view = max_tag (map fst (views m)) + 1
      in case reshape_rows elems_vals n_vals of
           Inl e \<Rightarrow> Inl e
         | Inr rows \<Rightarrow>
             if length elems_tags \<noteq> length rows then Inl BackendError
             else Inr (view, m\<lparr>views := views m @ [(view, tissue @ ''_'' @ name, elems_tags, rows)]\<rparr>))"

text \<open>
  \<^verbatim>\<open>field_from_elems(name, tissue, elems_tags, elems_vals, fill_val, formula)\<close>. The
  view is appended to the mesh file and the field is recorded on the tissue.
\<close>

definition field_from_elems ::
  "fem \<Rightarrow> string \<Rightarrow> string \<Rightarrow> int list \<Rightarrow> real list \<Rightarrow> real list option \<Rightarrow> string \<Rightarrow>
   error + fem" where
  "field_from_elems self name tissue elems_tags elems_vals fill_val formula =
     (case field_from_elems_checks self name tissue elems_tags elems_vals fill_val of
        Inl e \<Rightarrow> Inl e
      | Inr (n_vals, field_type, fill_val) \<Rightarrow>
          (let m = mesh_file self
           in case fill_empty_field_elems self m tissue elems_tags elems_vals n_vals fill_val of
                Inl e \<Rightarrow> Inl e
              | Inr (elems_tags, elems_vals) \<Rightarrow>
                  (case add_field_view name tissue elems_tags elems_vals n_vals m of
                     Inl e \<Rightarrow> Inl e
                   | Inr (view, m') \<Rightarrow>
                       (case map_of (tissues self) tissue of
                          None \<Rightarrow> Inl (KeyError TissueNotFound)
                        | Some t \<Rightarrow>
                            Inr (self\<lparr>tissues :=
                                        AList.update tissue
                                          (Tissue (surf t) (vol t)
                                             (AList.update name (Field field_type view formula)
                                                (tissue.fields t)))
                                          (tissues self),
                                      mesh_file := m'\<rparr>)))))"

section \<open>Interpolation\<close>

text \<open>
  \<^verbatim>\<open>_get_field_coords(shape, affine)\<close>: every voxel index of the first three axes, in
  C order (\<^verbatim>\<open>np.unravel_index\<close>), sent through the affine
  (\<^verbatim>\<open>nib.affines.apply_affine\<close>).
\<close>

definition unravel_index :: "nat \<Rightarrow> nat list \<Rightarrow> nat \<times> nat \<times> nat" where
  "unravel_index f shp = (f div (shp ! 1 * shp ! 2), f div shp ! 2 mod shp ! 1, f mod shp ! 2)"

definition apply_affine :: "real list list \<Rightarrow> nat \<times> nat \<times> nat \<Rightarrow> vec3" where
  "apply_affine a idx =
     (case idx of (i, j, k) \<Rightarrow>
        (a ! 0 ! 0 * real i + a ! 0 ! 1 * real j + a ! 0 ! 2 * real k + a ! 0 ! 3,
         a ! 1 ! 0 * real i + a ! 1 ! 1 * real j + a ! 1 ! 2 * real k + a ! 1 ! 3,
         a ! 2 ! 0 * real i + a ! 2 ! 1 * real j + a ! 2 ! 2 * real k + a ! 2 ! 3))"

definition get_field_coords :: "nat list \<Rightarrow> real list list \<Rightarrow> vec3 list" where
  "get_field_coords shp affine =
     map (\<lambda>f. apply_affine affine (unravel_index f (take 3 shp))) [0..<prod_list (take 3 shp)]"

text \<open>\<^verbatim>\<open>np.unique\<close>: the values without repetition, in ascending order.\<close>

definition np_unique :: "real list \<Rightarrow> real list" where
  "np_unique xs = sort (remdups xs)"

text \<open>
  \<^verbatim>\<open>scipy.interpolate.RegularGridInterpolator\<close> on three axes. The constructor
  wants values of at least three dimensions and, axis by axis, strictly ascending
  points, as many as the values have along the axis; it keeps its arguments. A call
  computes the values at the points with the method's kernel, then, where
  \<^verbatim>\<open>bounds_error\<close> is off and a \<^verbatim>\<open>fill_value\<close> is given, runs
  \<^verbatim>\<open>result[out_of_bounds] = fill_value\<close>; where
  \<^verbatim>\<open>bounds_error\<close> is on, a point out of bounds is an error. A point is out of bounds
  when one coordinate is below the first or above the last value of its axis. The
  kernel (nearest or linear interpolation inside the grid) is an argument of the
  model. The result is held as one row of components per point: one component where
  the values are a three-dimensional array, as many as the last axis is long where
  they have four dimensions.
\<close>

datatype interp_method = Nearest | Linear

type_synonym axes = "real list \<times> real list \<times> real list"

type_synonym kernel = "interp_method \<Rightarrow> axes \<Rightarrow> real ndarray \<Rightarrow> vec3 \<Rightarrow> real list"

record interpolator =
  grid :: axes
  grid_values :: "real ndarray"
  interp_kind :: interp_method
  bounds_error :: bool
  fill_value :: "real list option"

definition check_axis :: "real list \<Rightarrow> nat \<Rightarrow> error + unit" where
  "check_axis p n =
     (if \<not> sorted_wrt (<) p then Inl (ValueError NotAscending)
      else if n \<noteq> length p then Inl (ValueError GridShape)
      else Inr ())"

definition RegularGridInterpolator ::
  "axes \<Rightarrow> real ndarray \<Rightarrow> interp_method \<Rightarrow> bool \<Rightarrow> real list option \<Rightarrow>
   error + interpolator" where
  "RegularGridInterpolator points vals method be fv =
     (case points of (x, y, z) \<Rightarrow>
        if length (shape_of vals) < 3 then Inl (ValueError GridShape)
        else
          (case check_axis x (shape_of vals ! 0) of
             Inl e \<Rightarrow> Inl e
           | Inr _ \<Rightarrow>
               (case check_axis y (shape_of vals ! 1) of
                  Inl e \<Rightarrow> Inl e
                | Inr _ \<Rightarrow>
                    (case check_axis z (shape_of vals ! 2) of
                       Inl e \<Rightarrow> Inl e
                     | Inr _ \<Rightarrow>
                         Inr \<lparr>grid = points, grid_values = vals, interp_kind = method,
                               bounds_error = be, fill_value = fv\<rparr>))))"

definition out_of_bounds :: "axes \<Rightarrow> vec3 \<Rightarrow> bool" where
  "out_of_bounds g p =
     (case g of (gx, gy, gz) \<Rightarrow> case p of (x, y, z) \<Rightarrow>
        x < hd gx \<or> last gx < x \<or> y < hd gy \<or> last gy < y \<or> z < hd gz \<or> last gz < z)"

text \<open>
  \<^verbatim>\<open>result[out_of_bounds] = fill_value\<close> for a one-dimensional \<^verbatim>\<open>fill_value\<close>, as
  numpy assigns through a boolean mask. On a one-dimensional result (scalar values) a
  single value goes to every marked place, as many values as marked places go to them
  in order, and every other length is refused. On a two-dimensional result (rows of
  \<open>ncomp\<close> components) the value is broadcast to the marked rows: a row of \<open>ncomp\<close>
  values as it is, a single value repeated, every other length refused.
\<close>

fun assign_each :: "real list list \<Rightarrow> bool list \<Rightarrow> real list \<Rightarrow> real list list" where
  "assign_each (r # rs) (b # bs) (v # vs) =
     (if b then [v] # assign_each rs bs vs else r # assign_each rs bs (v # vs))"
| "assign_each rs bs vs = rs"

definition assign_masked ::
  "bool \<Rightarrow> nat \<Rightarrow> real list list \<Rightarrow> bool list \<Rightarrow> real list \<Rightarrow> error + real list list" where
  "assign_masked scalar ncomp result msk fv =
     (if scalar then
        (if length fv = 1 then Inr (map (\<lambda>(r, b). if b then fv else r) (zip result msk))
         else if length fv = length (filter (\<lambda>b. b) msk) then Inr (assign_each result msk fv)
         else Inl (ValueError Broadcast))
      else
        (if length fv = ncomp then Inr (map (\<lambda>(r, b). if b then fv else r) (zip result msk))
         else if length fv = 1
           then Inr (map (\<lambda>(r, b). if b then replicate ncomp (hd fv) else r) (zip result msk))
         else Inl (ValueError Broadcast)))"

definition interpolate :: "kernel \<Rightarrow> interpolator \<Rightarrow> vec3 list \<Rightarrow> error + real list list" where
  "interpolate kern f xi =
     (case grid f of (gx, gy, gz) \<Rightarrow>
        if gx = [] \<or> gy = [] \<or> gz = [] then Inl IndexError
        else
          (let oob = map (out_of_bounds (grid f)) xi
           in if bounds_error f \<and> list_ex (\<lambda>b. b) oob then Inl (ValueError OutOfBounds)
              else
                (let result = map (kern (interp_kind f) (grid f) (grid_values f)) xi
                 in if \<not> bounds_error f then
                      (case fill_value f of
                         None \<Rightarrow> Inr result
                       | Some fv \<Rightarrow>
                           assign_masked (length (shape_of (grid_values f)) = 3)
                             (last (shape_of (grid_values f))) result oob fv)
                    else Inr result)))"

text \<open>
  \<^verbatim>\<open>_interp_field(tissue, coords, field, method, fill_val)\<close>. The caller has checked
  that \<open>field\<close> has three or four dimensions.
\<close>

definition interp_field ::
  "kernel \<Rightarrow> fem \<Rightarrow> string \<Rightarrow> vec3 list \<Rightarrow> real ndarray \<Rightarrow> interp_method \<Rightarrow> real list \<Rightarrow>
   error + (int list \<times> real list list)" where
  "interp_field kern self tissue coords fld method fill_val =
     (let x = np_unique (map fst coords);
          y = np_unique (map (\<lambda>c. fst (snd c)) coords);
          z = np_unique (map (\<lambda>c. snd (snd c)) coords)
      in case RegularGridInterpolator (x, y, z) fld method False (Some fill_val) of
           Inl e \<Rightarrow> Inl e
         | Inr interp \<Rightarrow>
             (let m = mesh_file self
              in case get_tissue_elems self m tissue 3 of
                   Inl e \<Rightarrow> Inl e
                 | Inr elems_tags \<Rightarrow>
                     (case get_tissue_elems_coords self m tissue 3 of
                        Inl e \<Rightarrow> Inl e
                      | Inr elems_coords \<Rightarrow>
                          (case interpolate kern interp elems_coords of
                             Inl e \<Rightarrow> Inl e
                           | Inr elems_vals \<Rightarrow> Inr (elems_tags, elems_vals)))))"

text \<open>
  \<^verbatim>\<open>field_from_array(name, field, affine, tissue, fill_val, formula, nearest)\<close>, with
  an iterable \<^verbatim>\<open>fill_val\<close>. The interpolated values are flattened by
  \<^verbatim>\<open>field_from_elems\<close>.
\<close>

definition field_from_array ::
  "kernel \<Rightarrow> fem \<Rightarrow> string \<Rightarrow> real ndarray \<Rightarrow> real list list \<Rightarrow> string \<Rightarrow> real list \<Rightarrow>
   string \<Rightarrow> bool \<Rightarrow> error + fem" where
  "field_from_array kern self name fld affine tissue fill_val formula nearest =
     (let nd = length (shape_of fld)
      in if nd \<noteq> 3 \<and> nd \<noteq> 4 then Inl (ValueError FieldShape)
         else if nd = 4 \<and> last (shape_of fld) \<notin> {1, 3, 9} then Inl (ValueError FieldShape)
         else if \<not> affine_shape_ok affine then Inl (ValueError AffineShape)
         else
           (let affine = to_metres affine
            in if map_of (tissues self) tissue = None then Inl (KeyError TissueNotFound)
               else
                 (let coords = get_field_coords (shape_of fld) affine
                  in case interp_field kern self tissue coords fld
                            (if nearest then Nearest else Linear) fill_val of
                       Inl e \<Rightarrow> Inl e
                     | Inr (elems_tags, elems_vals) \<Rightarrow>
                         field_from_elems self name tissue elems_tags (concat elems_vals)
                           (Some fill_val) formula)))"

text \<open>
  \<^verbatim>\<open>field_from_nii(name, nii_path, tissue, fill_val, formula, nearest)\<close>. \<open>nib_load\<close>
  is \<^verbatim>\<open>nib.load\<close> with \<^verbatim>\<open>get_fdata()\<close> and \<^verbatim>\<open>affine\<close>, \<open>None\<close> where the file
  cannot be loaded. The call of \<^verbatim>\<open>field_from_array\<close> has \<^verbatim>\<open>tissues\<close> as its fourth
  argument; the function has the parameter \<^verbatim>\<open>tissue\<close>, no local \<^verbatim>\<open>tissues\<close>, and
  the module binds no such name, so evaluating the arguments raises \<^verbatim>\<open>NameError\<close>
  before \<^verbatim>\<open>field_from_array\<close> is entered.
\<close>

definition field_from_nii ::
  "(string \<Rightarrow> (real ndarray \<times> real list list) option) \<Rightarrow> kernel \<Rightarrow> fem \<Rightarrow> string \<Rightarrow> string \<Rightarrow>
   string \<Rightarrow> real list \<Rightarrow> string \<Rightarrow> bool \<Rightarrow> error + fem" where
  "field_from_nii nib_load kern self name nii_path tissue fill_val formula nearest =
     (case nib_load nii_path of
        None \<Rightarrow> Inl BackendError
      | Some img \<Rightarrow> Inl (NameError ''tissues''))"

section \<open>Example models\<close>

text \<open>
  A head model with one tissue on entity 1. Its surface has four nodes; seen from the
  point (1, 0, 0) mm they lie at 5 mm, 1 mm, 3 mm and 1 mm. Its volume has three
  tetrahedra, the second with its barycenter 2 mm along the first axis.
\<close>

definition head_mesh :: gmsh_model where
  "head_mesh =
     \<lparr>nodes_of = (\<lambda>_. [])((2, 1) :=
        [(10, (6/1000, 0, 0)), (11, (2/1000, 0, 0)), (12, (4/1000, 0, 0)), (13, (0, 0, 0))]),
      elems_of = (\<lambda>_. [])((3, 1) := [100, 101, 102]),
      barycenters_of = (\<lambda>_. [])((4, 1) :=
        [(1/2000, 1/2000, 1/2000), (2/1000, 0, 0), (0, 0, 0)]),
      discrete_entities = [],
      point_elements = [],
      physical_groups = [((2, 1), [1], ''scalp''), ((3, 2), [1], ''scalp'')],
      views = []\<rparr>"

definition head_model :: fem where
  "head_model =
     \<lparr>tissues = [(''scalp'', Tissue (Group 2 [1] 1) (Group 3 [1] 2) [])],
      sensors = [],
      mesh_file = head_mesh,
      nii_file = None\<rparr>"

text \<open>
  The same model with the sensor \<open>e1\<close> placed, on node 11, and its group of
  dimension 0 in the mesh file.
\<close>

definition wired_mesh :: gmsh_model where
  "wired_mesh = head_mesh
     \<lparr>nodes_of := (nodes_of head_mesh)((0, 1) := [(11, (2/1000, 0, 0))]),
      discrete_entities := [(0, 1)],
      point_elements := [(1, [11])],
      physical_groups := [((2, 1), [1], ''scalp''), ((3, 2), [1], ''scalp''), ((0, 3), [1], ''e1'')]\<rparr>"

definition wired_model :: fem where
  "wired_model = head_model
     \<lparr>sensors := [(''e1'', PointSensor ''scalp'' [1/1000, 0, 0] (2/1000, 0, 0) (Group 0 [1] 3) 11)],
      mesh_file := wired_mesh\<rparr>"

text \<open>
  The operations without rounding, with the factor 1/1000 and with the double that the
  literal \<^verbatim>\<open>1e-3\<close> denotes. Binary64 agrees with the second where its results are
  exact: on the product with 1 and with 0, and on the two distances of the model below,
  which are the double 0.001.
\<close>

definition exact_ops :: float_ops where
  "exact_ops = \<lparr>mul_milli = (\<lambda>c. c / 1000), cdist_row = euclidean\<rparr>"





text \<open>A mesh without physical groups, as the mesher leaves it.\<close>

definition blank_mesh :: gmsh_model where
  "blank_mesh = \<lparr>nodes_of = (\<lambda>_. []), elems_of = (\<lambda>_. []), barycenters_of = (\<lambda>_. []),
                  discrete_entities = [], point_elements = [], physical_groups = [],
                  views = []\<rparr>"

text \<open>
  Label volumes of shape (1, 1, 2): one with the labels 1 and 3, which skips the
  label 2, and one of 16-bit labels with the value 257.
\<close>

definition gap_labels :: "int ndarray" where
  "gap_labels = NDArray [1, 1, 2] [1, 3]"

definition wide_labels :: "int ndarray" where
  "wide_labels = NDArray [1, 1, 2] [0, 257]"

text \<open>
  A volume whose one nonzero label is 300, the volume of shape (0, 0, 0), and a label
  volume of shape (1, 1, 3) with the labels 1 and 2.
\<close>

definition high_labels :: "int ndarray" where
  "high_labels = NDArray [1, 1, 2] [0, 300]"

definition no_labels :: "int ndarray" where
  "no_labels = NDArray [0, 0, 0] []"

definition two_labels :: "int ndarray" where
  "two_labels = NDArray [1, 1, 3] [0, 2, 1]"

text \<open>
  A scalar field on a grid of 2 x 2 x 2 voxels of 1 mm, and a kernel that returns the
  value 3/10 at every point.
\<close>

definition cube_field :: "real ndarray" where
  "cube_field = NDArray [2, 2, 2] [3/10, 3/10, 3/10, 3/10, 3/10, 3/10, 3/10, 3/10]"

definition flat_kernel :: kernel where
  "flat_kernel = (\<lambda>method g vals p. [3/10])"

text \<open>An affine that shears the first axis along the second: \<open>x = i + j / 2\<close>.\<close>

definition sheared_affine :: "real list list" where
  "sheared_affine = [[1, 1/2, 0, 0], [0, 1, 0, 0], [0, 0, 1, 0], [0, 0, 0, 1]]"

section \<open>Sensor placement\<close>

lemma argmin_from_spec:
  assumes "length pre = i" "best < i" "pre ! best = v"
    and "\<forall>j<i. v \<le> pre ! j" "\<forall>j<best. v < pre ! j"
  shows "argmin_from best v i xs < length (pre @ xs) \<and>
         (\<forall>j<length (pre @ xs). (pre @ xs) ! argmin_from best v i xs \<le> (pre @ xs) ! j) \<and>
         (\<forall>j<argmin_from best v i xs. (pre @ xs) ! argmin_from best v i xs < (pre @ xs) ! j)"
  using assms
proof (induction xs arbitrary: best v i pre)
  case Nil
  then show ?case by auto
next
  case (Cons x xs)
  show ?case
  proof (cases "x < v")
    case True
    have "argmin_from i x (Suc i) xs < length ((pre @ [x]) @ xs) \<and>
         (\<forall>j<length ((pre @ [x]) @ xs). ((pre @ [x]) @ xs) ! argmin_from i x (Suc i) xs \<le> ((pre @ [x]) @ xs) ! j) \<and>
         (\<forall>j<argmin_from i x (Suc i) xs. ((pre @ [x]) @ xs) ! argmin_from i x (Suc i) xs < ((pre @ [x]) @ xs) ! j)"
    proof (rule Cons.IH)
      show "length (pre @ [x]) = Suc i" using Cons.prems by simp
      show "i < Suc i" by simp
      show "(pre @ [x]) ! i = x" using Cons.prems by (simp add: nth_append)
      show "\<forall>j<Suc i. x \<le> (pre @ [x]) ! j"
        using Cons.prems True by (auto simp: nth_append less_Suc_eq intro: less_imp_le order_trans)
      show "\<forall>j<i. x < (pre @ [x]) ! j"
        using Cons.prems True by (auto simp: nth_append intro: less_le_trans)
    qed
    with True show ?thesis by simp
  next
    case False
    have "argmin_from best v (Suc i) xs < length ((pre @ [x]) @ xs) \<and>
         (\<forall>j<length ((pre @ [x]) @ xs). ((pre @ [x]) @ xs) ! argmin_from best v (Suc i) xs \<le> ((pre @ [x]) @ xs) ! j) \<and>
         (\<forall>j<argmin_from best v (Suc i) xs. ((pre @ [x]) @ xs) ! argmin_from best v (Suc i) xs < ((pre @ [x]) @ xs) ! j)"
    proof (rule Cons.IH)
      show "length (pre @ [x]) = Suc i" using Cons.prems by simp
      show "best < Suc i" using Cons.prems by simp
      show "(pre @ [x]) ! best = v" using Cons.prems by (simp add: nth_append)
      show "\<forall>j<Suc i. v \<le> (pre @ [x]) ! j"
        using Cons.prems False by (auto simp: nth_append less_Suc_eq)
      show "\<forall>j<best. v < (pre @ [x]) ! j"
        using Cons.prems False by (auto simp: nth_append)
    qed
    with False show ?thesis by simp
  qed
qed

lemma argmin_spec:
  assumes "xs \<noteq> []"
  shows "\<exists>i. argmin xs = Inr i \<and> i < length xs \<and> (\<forall>j<length xs. xs ! i \<le> xs ! j) \<and>
             (\<forall>j<i. xs ! i < xs ! j)"
proof -
  from assms obtain x rest where xs: "xs = x # rest" by (cases xs) auto
  have "argmin_from 0 x 1 rest < length ([x] @ rest) \<and>
         (\<forall>j<length ([x] @ rest). ([x] @ rest) ! argmin_from 0 x 1 rest \<le> ([x] @ rest) ! j) \<and>
         (\<forall>j<argmin_from 0 x 1 rest. ([x] @ rest) ! argmin_from 0 x 1 rest < ([x] @ rest) ! j)"
    by (rule argmin_from_spec) auto
  then show ?thesis by (simp add: argmin_def xs)
qed

lemma py_max_spec:
  assumes "xs \<noteq> []"
  shows "py_max xs = Inr (Max (set xs))"
proof -
  from assms obtain x rest where xs: "xs = x # rest" by (cases xs) auto
  have "fold max rest x = Max (set (x # rest))"
    by (rule Max.set_eq_fold [symmetric])
  then show ?thesis by (simp add: py_max_def xs del: set_simps)
qed

lemma getPhysicalGroups_setPhysicalName:
  "getPhysicalGroups (setPhysicalName d t name m) = getPhysicalGroups m"
  by (simp add: getPhysicalGroups_def setPhysicalName_def case_prod_unfold comp_def if_distrib cong: if_cong)

lemma getPhysicalGroups_addDiscreteEntity:
  "getPhysicalGroups (snd (addDiscreteEntity d m)) = getPhysicalGroups m"
  by (simp add: getPhysicalGroups_def addDiscreteEntity_def Let_def)

lemma getPhysicalGroups_addNodes:
  "getPhysicalGroups (addNodes d e n c m) = getPhysicalGroups m"
  by (simp add: getPhysicalGroups_def addNodes_def)

lemma getPhysicalGroups_addElementsByType:
  "getPhysicalGroups (addElementsByType e ns m) = getPhysicalGroups m"
  by (simp add: getPhysicalGroups_def addElementsByType_def)

lemma addPhysicalGroup_fresh:
  assumes "(d, t) \<notin> set (getPhysicalGroups m)"
  shows "\<exists>m'. addPhysicalGroup d ents (Some t) m = Inr (t, m') \<and>
              getPhysicalGroups m' = getPhysicalGroups m @ [(d, t)]"
  using assms by (simp add: addPhysicalGroup_def getPhysicalGroups_def)

lemma add_point_sensor_on_node_groups:
  assumes ne: "getPhysicalGroups m \<noteq> []"
  shows "\<exists>entity m'. add_point_sensor_on_node name node_tag c m =
            Inr ((entity, Max (snd ` set (getPhysicalGroups m)) + 1), m') \<and>
          getPhysicalGroups m' =
            getPhysicalGroups m @ [(0, Max (snd ` set (getPhysicalGroups m)) + 1)]"
proof -
  let ?g = "Max (snd ` set (getPhysicalGroups m)) + 1"
  obtain entity m1 where e: "addDiscreteEntity 0 m = (entity, m1)"
    by (cases "addDiscreteEntity 0 m") auto
  let ?m3 = "addElementsByType entity [node_tag] (addNodes 0 entity node_tag c m1)"
  have m1: "getPhysicalGroups m1 = getPhysicalGroups m"
    using getPhysicalGroups_addDiscreteEntity [of 0 m] e by simp
  have m3: "getPhysicalGroups ?m3 = getPhysicalGroups m"
    by (simp add: getPhysicalGroups_addElementsByType getPhysicalGroups_addNodes m1)
  have mx: "py_max (map snd (getPhysicalGroups ?m3)) = Inr (?g - 1)"
    using ne py_max_spec [of "map snd (getPhysicalGroups m)"] by (simp add: m3)
  have fresh: "(0, ?g) \<notin> set (getPhysicalGroups ?m3)"
  proof
    assume "(0, ?g) \<in> set (getPhysicalGroups ?m3)"
    then have "snd (0::int, ?g) \<in> snd ` set (getPhysicalGroups m)"
      unfolding m3 by (rule imageI)
    then have "?g \<le> Max (snd ` set (getPhysicalGroups m))"
      by (intro Max_ge) simp_all
    then show False by simp
  qed
  from addPhysicalGroup_fresh [OF fresh, of "[entity]"]
  obtain m4 where m4: "addPhysicalGroup 0 [entity] (Some ?g) ?m3 = Inr (?g, m4)"
    and g4: "getPhysicalGroups m4 = getPhysicalGroups m @ [(0, ?g)]"
    unfolding m3 by blast
  have "add_point_sensor_on_node name node_tag c m = Inr ((entity, ?g), setPhysicalName 0 ?g name m4)"
    using e mx m4 by (simp add: add_point_sensor_on_node_def Let_def)
  then show ?thesis
    using g4 by (simp add: getPhysicalGroups_setPhysicalName)
qed

text \<open>
  Claim C7. On a mesh that has a physical group, placing a point sensor on a node
  succeeds and gives the new group the largest tag of all dimensions plus one. The tag
  is above every tag in use, the group is appended as a group of dimension 0, and
  tags that were pairwise different across the dimensions stay so.
\<close>

theorem point_sensor_group_id_fresh:
  assumes "getPhysicalGroups m \<noteq> []"
  shows "\<exists>entity g m'.
           add_point_sensor_on_node name node_tag c m = Inr ((entity, g), m') \<and>
           g = Max (snd ` set (getPhysicalGroups m)) + 1 \<and>
           (\<forall>k \<in> set (getPhysicalGroups m). snd k < g) \<and>
           getPhysicalGroups m' = getPhysicalGroups m @ [(0, g)] \<and>
           (distinct (map snd (getPhysicalGroups m)) \<longrightarrow>
              distinct (map snd (getPhysicalGroups m')))"
proof -
  let ?g = "Max (snd ` set (getPhysicalGroups m)) + 1"
  from add_point_sensor_on_node_groups [OF assms, of name node_tag c]
  obtain entity m' where r: "add_point_sensor_on_node name node_tag c m = Inr ((entity, ?g), m')"
    and g: "getPhysicalGroups m' = getPhysicalGroups m @ [(0, ?g)]"
    by blast
  have lt: "\<forall>k \<in> set (getPhysicalGroups m). snd k < ?g"
  proof
    fix k assume "k \<in> set (getPhysicalGroups m)"
    then have "snd k \<le> Max (snd ` set (getPhysicalGroups m))" by simp
    then show "snd k < ?g" by simp
  qed
  then have "?g \<notin> snd ` set (getPhysicalGroups m)" by force
  then have "distinct (map snd (getPhysicalGroups m)) \<longrightarrow> distinct (map snd (getPhysicalGroups m'))"
    by (simp add: g)
  with r g lt show ?thesis by blast
qed


theorem point_sensor_group_id_fresh_witness:
  "getPhysicalGroups head_mesh \<noteq> [] \<and>
   (\<exists>entity m'. add_point_sensor_on_node ''e1'' 11 (2/1000, 0, 0) head_mesh = Inr ((entity, 3), m') \<and>
       getPhysicalGroups m' = [(2, 1), (3, 2), (0, 3)])"
proof -
  have ne: "getPhysicalGroups head_mesh \<noteq> []"
    by (simp add: getPhysicalGroups_def head_mesh_def)
  have g: "getPhysicalGroups head_mesh = [(2, 1), (3, 2)]"
    by (simp add: getPhysicalGroups_def head_mesh_def)
  from point_sensor_group_id_fresh [OF ne, of "''e1''" 11 "(2/1000, 0, 0)"]
  show ?thesis unfolding g by auto
qed


lemma add_point_sensor_to_cases:
  assumes ne: "ns \<noteq> []"
  shows "\<exists>i<length ns.
           (\<forall>j<length ns. cdist_row fp (a, b, c) (snd (ns ! i)) \<le> cdist_row fp (a, b, c) (snd (ns ! j))) \<and>
           (\<forall>j<i. cdist_row fp (a, b, c) (snd (ns ! i)) < cdist_row fp (a, b, c) (snd (ns ! j))) \<and>
           add_point_sensor_to fp name [a, b, c] (map fst ns) (map snd ns) tissue (sens, m) =
             (case add_point_sensor_on_node name (fst (ns ! i)) (snd (ns ! i)) m of
                Inl e \<Rightarrow> Inl e
              | Inr ((entity, grp), m') \<Rightarrow>
                  Inr (AList.update name
                         (PointSensor tissue [a, b, c] (snd (ns ! i)) (Group 0 [entity] grp)
                            (fst (ns ! i))) sens, m'))"
proof -
  let ?ds = "map (cdist_row fp (a, b, c)) (map snd ns)"
  have "?ds \<noteq> []" using ne by simp
  from argmin_spec [OF this] obtain i where i: "argmin ?ds = Inr i" "i < length ?ds"
    "\<forall>j<length ?ds. ?ds ! i \<le> ?ds ! j" "\<forall>j<i. ?ds ! i < ?ds ! j"
    by blast
  have il: "i < length ns" using i(2) by simp
  have 1: "\<forall>j<length ns. cdist_row fp (a, b, c) (snd (ns ! i)) \<le> cdist_row fp (a, b, c) (snd (ns ! j))"
    using i(3) il by simp
  have 2: "\<forall>j<i. cdist_row fp (a, b, c) (snd (ns ! i)) < cdist_row fp (a, b, c) (snd (ns ! j))"
    using i(4) il by simp
  have 3: "add_point_sensor_to fp name [a, b, c] (map fst ns) (map snd ns) tissue (sens, m) =
             (case add_point_sensor_on_node name (fst (ns ! i)) (snd (ns ! i)) m of
                Inl e \<Rightarrow> Inl e
              | Inr ((entity, grp), m') \<Rightarrow>
                  Inr (AList.update name
                         (PointSensor tissue [a, b, c] (snd (ns ! i)) (Group 0 [entity] grp)
                            (fst (ns ! i))) sens, m'))"
    using i(1) il by (simp add: add_point_sensor_to_def cdist_def Let_def)
  from il 1 2 3 show ?thesis by blast
qed







section \<open>Mesh generation: validation and tagging\<close>

lemma astype_uint8_idem: "astype_uint8 (astype_uint8 v) = astype_uint8 v"
  by (simp add: astype_uint8_def)

lemma astype_uint8_small: "0 \<le> v \<Longrightarrow> v \<le> 255 \<Longrightarrow> astype_uint8 v = v"
  by (simp add: astype_uint8_def)

lemma mesh_from_array_checks_max:
  assumes "length (shape_of labels) = 3" and "ravel labels \<noteq> []" and "affine_shape_ok affine"
  shows "mesh_from_array_checks labels affine names =
           (if int (length names) = Max (set (map astype_uint8 (ravel labels)))
            then Inr (NDArray (shape_of labels) (map astype_uint8 (ravel labels)),
                      to_metres affine, names)
            else Inl (ValueError TissueCount))"
proof -
  have "map astype_uint8 (ravel labels) \<noteq> []" using assms(2) by simp
  from py_max_spec [OF this]
  have "np_max (NDArray (shape_of labels) (map astype_uint8 (ravel labels))) =
          Inr (Max (set (map astype_uint8 (ravel labels))))"
    by (simp add: np_max_def)
  then show ?thesis
    using assms(1,3) by (simp add: mesh_from_array_checks_def Let_def)
qed

lemma max_contiguous_labels:
  assumes "set vs - {0} = {1..k}" and "0 \<le> k" and "k \<le> 255" and "vs \<noteq> []"
  shows "Max (set (map astype_uint8 vs)) = k"
proof -
  have rng: "\<forall>v \<in> set vs. 0 \<le> v \<and> v \<le> k"
  proof
    fix v assume v: "v \<in> set vs"
    show "0 \<le> v \<and> v \<le> k"
    proof (cases "v = 0")
      case True then show ?thesis using assms(2) by simp
    next
      case False
      with v have "v \<in> set vs - {0}" by simp
      then have "v \<in> {1..k}" using assms(1) by simp
      then show ?thesis by simp
    qed
  qed
  then have id: "map astype_uint8 vs = vs"
    using assms(3) by (intro map_idI astype_uint8_small) auto
  show ?thesis
  proof (cases "k = 0")
    case True
    with rng have "set vs \<subseteq> {0}" by auto
    with assms(4) have "set vs = {0}" by (cases vs) auto
    then show ?thesis using True id by simp
  next
    case False
    with assms(2) have "k \<in> {1..k}" by simp
    then have "k \<in> set vs" using assms(1) by blast
    moreover have "\<forall>v \<in> set vs. v \<le> k" using rng by simp
    ultimately have "Max (set vs) = k"
      by (intro Max_eqI) auto
    then show ?thesis using id by simp
  qed
qed

text \<open>
  Claim C4, amended. For a three-dimensional label array with at least one voxel whose
  nonzero labels are exactly 1 to \<open>k\<close>, with \<open>k\<close> at most 255, and an affine of
  shape (3, 4) or (4, 4): the largest label after the cast is \<open>k\<close>, the validation of
  \<^verbatim>\<open>mesh_from_array\<close> succeeds with exactly \<open>k\<close> tissue names and fails with the
  count mismatch with every other number of names, \<open>k + 1\<close> and \<open>k - 1\<close> among them.
\<close>

theorem mesh_from_array_name_count:
  assumes "length (shape_of labels) = 3" and "ravel labels \<noteq> []" and "affine_shape_ok affine"
    and "set (ravel labels) - {0} = {1..k}" and "0 \<le> k" and "k \<le> 255"
  shows "Max (set (map astype_uint8 (ravel labels))) = k \<and>
         mesh_from_array_checks labels affine names =
           (if int (length names) = k
            then Inr (NDArray (shape_of labels) (map astype_uint8 (ravel labels)),
                      to_metres affine, names)
            else Inl (ValueError TissueCount))"
  using mesh_from_array_checks_max [OF assms(1,2,3), of names]
    max_contiguous_labels [OF assms(4,5,6,2)] by simp

text \<open>
  Claim C4 as stated fails where a label is skipped: the volume with the labels 1 and
  3 has two distinct nonzero labels, is refused with two names and accepted with three.
  It also fails above 255 and without voxels: the volume with the one nonzero label
  300 is refused with one name, and the empty volume is refused with no name.
\<close>

theorem mesh_from_array_name_count_counterexample:
  "card (set (ravel gap_labels) - {0}) = 2 \<and>
   mesh_from_array_checks gap_labels eye4 [''scalp'', ''brain''] = Inl (ValueError TissueCount) \<and>
   mesh_from_array_checks gap_labels eye4 [''scalp'', ''skull'', ''brain''] =
     Inr (gap_labels, to_metres eye4, [''scalp'', ''skull'', ''brain'']) \<and>
   card (set (ravel high_labels) - {0}) = 1 \<and>
   mesh_from_array_checks high_labels eye4 [''scalp''] = Inl (ValueError TissueCount) \<and>
   card (set (ravel no_labels) - {0}) = 0 \<and>
   mesh_from_array_checks no_labels eye4 [] = Inl (ValueError EmptySequence)"
  by (simp add: gap_labels_def high_labels_def no_labels_def mesh_from_array_checks_def Let_def
      affine_shape_ok_def eye4_def np_max_def py_max_def astype_uint8_def)

text \<open>The amended claim C4 on the volume with the labels 1 and 2.\<close>

theorem mesh_from_array_name_count_witness:
  "length (shape_of two_labels) = 3 \<and> ravel two_labels \<noteq> [] \<and> affine_shape_ok eye4 \<and>
   set (ravel two_labels) - {0} = {1..2} \<and>
   mesh_from_array_checks two_labels eye4 [''scalp'', ''brain''] =
     Inr (two_labels, to_metres eye4, [''scalp'', ''brain'']) \<and>
   mesh_from_array_checks two_labels eye4 [''scalp''] = Inl (ValueError TissueCount) \<and>
   mesh_from_array_checks two_labels eye4 [''scalp'', ''skull'', ''brain''] =
     Inl (ValueError TissueCount)"
proof -
  have 1: "length (shape_of two_labels) = 3" by (simp add: two_labels_def)
  have 2: "ravel two_labels \<noteq> []" by (simp add: two_labels_def)
  have 3: "affine_shape_ok eye4" by (simp add: affine_shape_ok_def eye4_def)
  have 4: "set (ravel two_labels) - {0} = {1..2}"
    by (auto simp: two_labels_def)
  have 5: "NDArray (shape_of two_labels) (map astype_uint8 (ravel two_labels)) = two_labels"
    by (simp add: two_labels_def astype_uint8_def)
  note t = mesh_from_array_name_count [OF 1 2 3 4, simplified 5]
  from t [of "[''scalp'', ''brain'']"] t [of "[''scalp'']"] t [of "[''scalp'', ''skull'', ''brain'']"]
  show ?thesis using 1 2 3 4 by simp
qed

text \<open>
  Claim C10. \<^verbatim>\<open>mesh_from_array\<close> casts the labels to unsigned 8-bit before every
  check: the validation and the whole function give the same result on the labels and
  on the labels modulo 256. On the 16-bit volume with the labels 0 and 257 the maximum
  that the count check uses is 1, one tissue name is accepted and 257 names are
  refused, and the labels handed to cropping and meshing are 0 and 1.
\<close>

theorem labels_cast_to_uint8:
  "mesh_from_array_checks labels affine names =
     mesh_from_array_checks (NDArray (shape_of labels) (map astype_uint8 (ravel labels))) affine names \<and>
   mesh_from_array crop_img gen transform self labels affine names =
     mesh_from_array crop_img gen transform self
       (NDArray (shape_of labels) (map astype_uint8 (ravel labels))) affine names \<and>
   list_all (\<lambda>v. 0 \<le> v \<and> v < 65536) (ravel wide_labels) \<and>
   list_ex (\<lambda>v. 255 < v) (ravel wide_labels) \<and>
   np_max (NDArray (shape_of wide_labels) (map astype_uint8 (ravel wide_labels))) = Inr 1 \<and>
   mesh_from_array_checks wide_labels eye4 [''scalp''] =
     Inr (NDArray [1, 1, 2] [0, 1], to_metres eye4, [''scalp'']) \<and>
   mesh_from_array_checks wide_labels eye4 (replicate 257 ''t'') = Inl (ValueError TissueCount) \<and>
   mesh_from_array crop_img gen transform self wide_labels eye4 [''scalp''] =
     mesh_from_array_build crop_img gen transform self (NDArray [1, 1, 2] [0, 1]) (to_metres eye4)
       [''scalp'']"
proof -
  have a: "mesh_from_array_checks labels affine names =
     mesh_from_array_checks (NDArray (shape_of labels) (map astype_uint8 (ravel labels))) affine names"
    by (simp add: mesh_from_array_checks_def Let_def astype_uint8_idem comp_def)
  have b: "mesh_from_array crop_img gen transform self labels affine names =
     mesh_from_array crop_img gen transform self
       (NDArray (shape_of labels) (map astype_uint8 (ravel labels))) affine names"
    unfolding mesh_from_array_def using a by simp
  have c: "mesh_from_array_checks wide_labels eye4 [''scalp''] =
     Inr (NDArray [1, 1, 2] [0, 1], to_metres eye4, [''scalp''])"
    by (simp add: wide_labels_def mesh_from_array_checks_def Let_def affine_shape_ok_def eye4_def
      np_max_def py_max_def astype_uint8_def)
  have d: "mesh_from_array_checks wide_labels eye4 (replicate 257 ''t'') = Inl (ValueError TissueCount)"
    by (simp add: wide_labels_def mesh_from_array_checks_def Let_def affine_shape_ok_def eye4_def
      np_max_def py_max_def astype_uint8_def)
  have e: "np_max (NDArray (shape_of wide_labels) (map astype_uint8 (ravel wide_labels))) = Inr 1"
    by (simp add: wide_labels_def np_max_def py_max_def astype_uint8_def)
  have f: "mesh_from_array crop_img gen transform self wide_labels eye4 [''scalp''] =
     mesh_from_array_build crop_img gen transform self (NDArray [1, 1, 2] [0, 1]) (to_metres eye4)
       [''scalp'']"
    by (simp add: mesh_from_array_def c)
  have g: "list_all (\<lambda>v. 0 \<le> v \<and> v < 65536) (ravel wide_labels) \<and>
   list_ex (\<lambda>v. 255 < v) (ravel wide_labels)"
    by (simp add: wide_labels_def)
  from a b c d e f g show ?thesis by blast
qed

lemma max_tag_ge: "t \<in> set ts \<Longrightarrow> t \<le> max_tag ts"
proof -
  assume t: "t \<in> set ts"
  have "fold max ts 0 = Max (set (0 # ts))"
    by (rule Max.set_eq_fold [symmetric])
  moreover have "t \<le> Max (set (0 # ts))"
    using t by (intro Max_ge) auto
  ultimately show ?thesis by (simp add: max_tag_def)
qed

lemma addPhysicalGroup_auto:
  "\<exists>g. addPhysicalGroup d ents None m =
          Inr (g, m\<lparr>physical_groups := physical_groups m @ [((d, g), ents, [])]\<rparr>) \<and>
        (\<forall>k \<in> set (physical_groups m). snd (fst k) < g)"
proof -
  let ?g = "max_tag (map snd (getPhysicalGroups m)) + 1"
  have lt: "\<forall>k \<in> set (physical_groups m). snd (fst k) < ?g"
  proof
    fix k assume "k \<in> set (physical_groups m)"
    then have "snd (fst k) \<in> set (map snd (getPhysicalGroups m))"
      by (auto simp: getPhysicalGroups_def)
    from max_tag_ge [OF this] show "snd (fst k) < ?g" by simp
  qed
  then have "(d, ?g) \<notin> set (getPhysicalGroups m)"
    by (fastforce simp: getPhysicalGroups_def)
  then have "addPhysicalGroup d ents None m =
          Inr (?g, m\<lparr>physical_groups := physical_groups m @ [((d, ?g), ents, [])]\<rparr>)"
    by (simp add: addPhysicalGroup_def Let_def)
  with lt show ?thesis by blast
qed

lemma setPhysicalName_last:
  assumes "\<forall>k \<in> set gs. fst k \<noteq> (d, g)"
  shows "setPhysicalName d g name (m\<lparr>physical_groups := gs @ [((d, g), ents, n)]\<rparr>) =
         m\<lparr>physical_groups := gs @ [((d, g), ents, name)]\<rparr>"
proof -
  have "map (\<lambda>(k, ents, n). if k = (d, g) then (k, ents, name) else (k, ents, n)) gs = gs"
    using assms by (intro map_idI) (auto split: prod.splits)
  then show ?thesis by (simp add: setPhysicalName_def)
qed

lemma tag_group:
  "\<exists>g. addPhysicalGroup d ents None m =
          Inr (g, m\<lparr>physical_groups := physical_groups m @ [((d, g), ents, [])]\<rparr>) \<and>
        setPhysicalName d g name (m\<lparr>physical_groups := physical_groups m @ [((d, g), ents, [])]\<rparr>) =
          m\<lparr>physical_groups := physical_groups m @ [((d, g), ents, name)]\<rparr>"
proof -
  from addPhysicalGroup_auto [of d ents m] obtain g where
    a: "addPhysicalGroup d ents None m =
          Inr (g, m\<lparr>physical_groups := physical_groups m @ [((d, g), ents, [])]\<rparr>)"
    and lt: "\<forall>k \<in> set (physical_groups m). snd (fst k) < g"
    by blast
  from lt have "\<forall>k \<in> set (physical_groups m). fst k \<noteq> (d, g)" by auto
  from setPhysicalName_last [OF this] a show ?thesis by blast
qed

lemma add_tissues_step:
  "\<exists>sg vg. add_tissues_loop l (t # rest) (ts, m) =
     add_tissues_loop (Suc l) rest
       (AList.update t (Tissue (Group 2 [int l + 1] sg) (Group 3 [int l + 1] vg) []) ts,
        m\<lparr>physical_groups := physical_groups m @
             [((2, sg), [int l + 1], t), ((3, vg), [int l + 1], t)]\<rparr>)"
proof -
  let ?e = "int l + 1"
  from tag_group [of 2 "[?e]" m t] obtain sg where
    a: "addPhysicalGroup 2 [?e] None m =
          Inr (sg, m\<lparr>physical_groups := physical_groups m @ [((2, sg), [?e], [])]\<rparr>)"
    and b: "setPhysicalName 2 sg t (m\<lparr>physical_groups := physical_groups m @ [((2, sg), [?e], [])]\<rparr>) =
          m\<lparr>physical_groups := physical_groups m @ [((2, sg), [?e], t)]\<rparr>"
    by blast
  let ?m2 = "m\<lparr>physical_groups := physical_groups m @ [((2, sg), [?e], t)]\<rparr>"
  from tag_group [of 3 "[?e]" ?m2 t] obtain vg where
    c: "addPhysicalGroup 3 [?e] None ?m2 =
          Inr (vg, m\<lparr>physical_groups := physical_groups m @ [((2, sg), [?e], t), ((3, vg), [?e], [])]\<rparr>)"
    and d: "setPhysicalName 3 vg t
              (m\<lparr>physical_groups := physical_groups m @ [((2, sg), [?e], t), ((3, vg), [?e], [])]\<rparr>) =
          m\<lparr>physical_groups := physical_groups m @ [((2, sg), [?e], t), ((3, vg), [?e], t)]\<rparr>"
    by auto
  have "add_tissues_loop l (t # rest) (ts, m) =
     add_tissues_loop (Suc l) rest
       (AList.update t (Tissue (Group 2 [?e] sg) (Group 3 [?e] vg) []) ts,
        m\<lparr>physical_groups := physical_groups m @ [((2, sg), [?e], t), ((3, vg), [?e], t)]\<rparr>)"
    by (simp add: a b c d Let_def)
  then show ?thesis by blast
qed

lemma add_tissues_loop_spec:
  "\<exists>ts' m' added.
     add_tissues_loop l names (ts, m) = Inr (ts', m') \<and>
     physical_groups m' = physical_groups m @ added \<and>
     map (\<lambda>k. (fst (fst k), snd k)) added =
       concat (map (\<lambda>(i, t). [(2, [int i + 1], t), (3, [int i + 1], t)]) (enumerate l names)) \<and>
     (\<forall>n. n \<notin> set names \<longrightarrow> map_of ts' n = map_of ts n) \<and>
     (\<forall>j<length names. names ! j \<notin> set (drop (Suc j) names) \<longrightarrow>
        (\<exists>sg vg. map_of ts' (names ! j) =
                    Some (Tissue (Group 2 [int (l + j) + 1] sg) (Group 3 [int (l + j) + 1] vg) []) \<and>
                  ((2, sg), [int (l + j) + 1], names ! j) \<in> set added \<and>
                  ((3, vg), [int (l + j) + 1], names ! j) \<in> set added))"
proof (induction names arbitrary: l ts m)
  case Nil
  show ?case by simp
next
  case (Cons t rest)
  let ?e = "int l + 1"
  from add_tissues_step [of l t rest ts m] obtain sg vg where
    step: "add_tissues_loop l (t # rest) (ts, m) =
     add_tissues_loop (Suc l) rest
       (AList.update t (Tissue (Group 2 [?e] sg) (Group 3 [?e] vg) []) ts,
        m\<lparr>physical_groups := physical_groups m @ [((2, sg), [?e], t), ((3, vg), [?e], t)]\<rparr>)"
    by blast
  let ?ts1 = "AList.update t (Tissue (Group 2 [?e] sg) (Group 3 [?e] vg) []) ts"
  let ?m1 = "m\<lparr>physical_groups := physical_groups m @ [((2, sg), [?e], t), ((3, vg), [?e], t)]\<rparr>"
  from Cons.IH [of "Suc l" ?ts1 ?m1] obtain ts' m' added where
    r: "add_tissues_loop (Suc l) rest (?ts1, ?m1) = Inr (ts', m')"
    and g: "physical_groups m' = physical_groups ?m1 @ added"
    and v: "map (\<lambda>k. (fst (fst k), snd k)) added =
       concat (map (\<lambda>(i, t). [(2, [int i + 1], t), (3, [int i + 1], t)]) (enumerate (Suc l) rest))"
    and keep: "\<forall>n. n \<notin> set rest \<longrightarrow> map_of ts' n = map_of ?ts1 n"
    and reg: "\<forall>j<length rest. rest ! j \<notin> set (drop (Suc j) rest) \<longrightarrow>
        (\<exists>sg vg. map_of ts' (rest ! j) =
                    Some (Tissue (Group 2 [int (Suc l + j) + 1] sg) (Group 3 [int (Suc l + j) + 1] vg) []) \<and>
                  ((2, sg), [int (Suc l + j) + 1], rest ! j) \<in> set added \<and>
                  ((3, vg), [int (Suc l + j) + 1], rest ! j) \<in> set added)"
    by blast
  let ?added = "[((2, sg), [?e], t), ((3, vg), [?e], t)] @ added"
  have 1: "add_tissues_loop l (t # rest) (ts, m) = Inr (ts', m')"
    using step r by simp
  have 2: "physical_groups m' = physical_groups m @ ?added"
    using g by simp
  have 3: "map (\<lambda>k. (fst (fst k), snd k)) ?added =
       concat (map (\<lambda>(i, t). [(2, [int i + 1], t), (3, [int i + 1], t)]) (enumerate l (t # rest)))"
    using v by simp
  have 4: "\<forall>n. n \<notin> set (t # rest) \<longrightarrow> map_of ts' n = map_of ts n"
    using keep by (simp add: update_conv')
  have 5: "\<forall>j<length (t # rest). (t # rest) ! j \<notin> set (drop (Suc j) (t # rest)) \<longrightarrow>
        (\<exists>sg vg. map_of ts' ((t # rest) ! j) =
                    Some (Tissue (Group 2 [int (l + j) + 1] sg) (Group 3 [int (l + j) + 1] vg) []) \<and>
                  ((2, sg), [int (l + j) + 1], (t # rest) ! j) \<in> set ?added \<and>
                  ((3, vg), [int (l + j) + 1], (t # rest) ! j) \<in> set ?added)"
  proof (intro allI impI)
    fix j assume j: "j < length (t # rest)" and last: "(t # rest) ! j \<notin> set (drop (Suc j) (t # rest))"
    show "\<exists>sg vg. map_of ts' ((t # rest) ! j) =
                    Some (Tissue (Group 2 [int (l + j) + 1] sg) (Group 3 [int (l + j) + 1] vg) []) \<and>
                  ((2, sg), [int (l + j) + 1], (t # rest) ! j) \<in> set ?added \<and>
                  ((3, vg), [int (l + j) + 1], (t # rest) ! j) \<in> set ?added"
    proof (cases j)
      case 0
      with last have "t \<notin> set rest" by simp
      with keep have "map_of ts' t = Some (Tissue (Group 2 [?e] sg) (Group 3 [?e] vg) [])"
        by (simp add: update_conv')
      with 0 show ?thesis by auto
    next
      case (Suc i)
      with j last have i: "i < length rest" and "rest ! i \<notin> set (drop (Suc i) rest)" by simp_all
      with reg obtain sg' vg' where
        "map_of ts' (rest ! i) =
           Some (Tissue (Group 2 [int (Suc l + i) + 1] sg') (Group 3 [int (Suc l + i) + 1] vg') [])"
        "((2, sg'), [int (Suc l + i) + 1], rest ! i) \<in> set added"
        "((3, vg'), [int (Suc l + i) + 1], rest ! i) \<in> set added"
        by blast
      with Suc show ?thesis by auto
    qed
  qed
  from 1 2 3 4 5 show ?case by blast
qed

text \<open>A mesh on which a tissue has been tagged has a physical group.\<close>

lemma add_tissues_groups_nonempty:
  assumes "names \<noteq> []" and "add_tissues names (ts, m) = Inr (ts', m')"
  shows "getPhysicalGroups m' \<noteq> []"
proof -
  from add_tissues_loop_spec [of 0 names ts m] assms(2) obtain added where
    g: "physical_groups m' = physical_groups m @ added"
    and v: "map (\<lambda>k. (fst (fst k), snd k)) added =
       concat (map (\<lambda>(i, t). [(2, [int i + 1], t), (3, [int i + 1], t)]) (enumerate 0 names))"
    unfolding add_tissues_def by auto
  from assms(1) obtain t rest where "names = t # rest" by (cases names) auto
  with v have "added \<noteq> []" by auto
  with g show ?thesis by (simp add: getPhysicalGroups_def)
qed

text \<open>
  Claim C5, amended. For every sequence of pairwise different tissue names, tissue
  tagging succeeds and appends to the physical groups of the mesh, for the name at
  position \<open>i\<close> counted from 0 and in this order, one group of dimension 2 and one of
  dimension 3, each on the single entity \<open>i + 1\<close> and named after the tissue; the
  registry maps every name to the pair of exactly these two groups.
\<close>

theorem add_tissues_order:
  assumes "distinct names"
  shows "\<exists>ts' m' added.
     add_tissues names (ts, m) = Inr (ts', m') \<and>
     physical_groups m' = physical_groups m @ added \<and>
     map (\<lambda>k. (fst (fst k), snd k)) added =
       concat (map (\<lambda>(i, t). [(2, [int i + 1], t), (3, [int i + 1], t)]) (enumerate 0 names)) \<and>
     (\<forall>j<length names.
        \<exists>sg vg. map_of ts' (names ! j) =
                    Some (Tissue (Group 2 [int j + 1] sg) (Group 3 [int j + 1] vg) []) \<and>
                  ((2, sg), [int j + 1], names ! j) \<in> set added \<and>
                  ((3, vg), [int j + 1], names ! j) \<in> set added)"
proof -
  from add_tissues_loop_spec [of 0 names ts m] obtain ts' m' added where
    r: "add_tissues_loop 0 names (ts, m) = Inr (ts', m')"
    and g: "physical_groups m' = physical_groups m @ added"
    and v: "map (\<lambda>k. (fst (fst k), snd k)) added =
       concat (map (\<lambda>(i, t). [(2, [int i + 1], t), (3, [int i + 1], t)]) (enumerate 0 names))"
    and reg: "\<forall>j<length names. names ! j \<notin> set (drop (Suc j) names) \<longrightarrow>
        (\<exists>sg vg. map_of ts' (names ! j) =
                    Some (Tissue (Group 2 [int (0 + j) + 1] sg) (Group 3 [int (0 + j) + 1] vg) []) \<and>
                  ((2, sg), [int (0 + j) + 1], names ! j) \<in> set added \<and>
                  ((3, vg), [int (0 + j) + 1], names ! j) \<in> set added)"
    by blast
  have "\<forall>j<length names. names ! j \<notin> set (drop (Suc j) names)"
  proof (intro allI impI)
    fix j assume j: "j < length names"
    have "names = take j names @ names ! j # drop (Suc j) names"
      using j by (simp add: id_take_nth_drop)
    then have "distinct (take j names @ names ! j # drop (Suc j) names)"
      using assms by simp
    then show "names ! j \<notin> set (drop (Suc j) names)" by simp
  qed
  with reg have "\<forall>j<length names.
        \<exists>sg vg. map_of ts' (names ! j) =
                    Some (Tissue (Group 2 [int j + 1] sg) (Group 3 [int j + 1] vg) []) \<and>
                  ((2, sg), [int j + 1], names ! j) \<in> set added \<and>
                  ((3, vg), [int j + 1], names ! j) \<in> set added"
    by simp
  with r g v show ?thesis unfolding add_tissues_def by blast
qed

text \<open>
  Claim C5 as stated fails for a name that occurs twice: the registry then holds one
  tissue, on entity 2, and none on entity 1.
\<close>

theorem add_tissues_order_counterexample:
  "map_sum id fst (add_tissues [''scalp'', ''scalp''] ([], blank_mesh)) =
     Inr [(''scalp'', Tissue (Group 2 [2] 3) (Group 3 [2] 4) [])]"
  by (simp add: add_tissues_def blank_mesh_def addPhysicalGroup_def setPhysicalName_def
      getPhysicalGroups_def max_tag_def Let_def)

text \<open>The amended claim C5 on two tissues.\<close>

theorem add_tissues_order_witness:
  "distinct [''scalp'', ''brain''] \<and>
   (\<exists>ts' m' sg vg sg' vg'.
      add_tissues [''scalp'', ''brain''] ([], blank_mesh) = Inr (ts', m') \<and>
      map_of ts' ''scalp'' = Some (Tissue (Group 2 [1] sg) (Group 3 [1] vg) []) \<and>
      map_of ts' ''brain'' = Some (Tissue (Group 2 [2] sg') (Group 3 [2] vg') []) \<and>
      map (\<lambda>k. (fst (fst k), snd k)) (physical_groups m') =
        [(2, [1], ''scalp''), (3, [1], ''scalp''), (2, [2], ''brain''), (3, [2], ''brain'')])"
proof -
  have d: "distinct [''scalp'', ''brain'']" by simp
  from add_tissues_order [OF d, of "[]" blank_mesh] obtain ts' m' added where
    r: "add_tissues [''scalp'', ''brain''] ([], blank_mesh) = Inr (ts', m')"
    and g: "physical_groups m' = physical_groups blank_mesh @ added"
    and v: "map (\<lambda>k. (fst (fst k), snd k)) added =
       concat (map (\<lambda>(i, t). [(2, [int i + 1], t), (3, [int i + 1], t)])
                 (enumerate 0 [''scalp'', ''brain'']))"
    and reg: "\<forall>j<length [''scalp'', ''brain''].
        \<exists>sg vg. map_of ts' ([''scalp'', ''brain''] ! j) =
                    Some (Tissue (Group 2 [int j + 1] sg) (Group 3 [int j + 1] vg) []) \<and>
                  ((2, sg), [int j + 1], [''scalp'', ''brain''] ! j) \<in> set added \<and>
                  ((3, vg), [int j + 1], [''scalp'', ''brain''] ! j) \<in> set added"
    by blast
  from reg [rule_format, of 0] obtain sg vg where
    a: "map_of ts' ''scalp'' = Some (Tissue (Group 2 [1] sg) (Group 3 [1] vg) [])"
    by auto
  from reg [rule_format, of 1] obtain sg' vg' where
    b: "map_of ts' ''brain'' = Some (Tissue (Group 2 [2] sg') (Group 3 [2] vg') [])"
    by auto
  have c: "map (\<lambda>k. (fst (fst k), snd k)) (physical_groups m') =
        [(2, [1], ''scalp''), (3, [1], ''scalp''), (2, [2], ''brain''), (3, [2], ''brain'')]"
    using g v by (simp add: blank_mesh_def)
  show ?thesis
    using d r a b c by (intro conjI exI) assumption+
qed

section \<open>Duplicate sensor names\<close>

lemmas sensor_defs = add_point_sensor_def add_point_sensors_def get_tissue_nodes_def Let_def
      add_point_sensor_to_def cdist_def euclidean_def argmin_def add_point_sensor_on_node_def
      addDiscreteEntity_def addNodes_def addElementsByType_def py_max_def getPhysicalGroups_def
      addPhysicalGroup_def setPhysicalName_def max_tag_def

lemma add_point_sensor_rejects_existing:
  "map_of (sensors self) name \<noteq> None \<Longrightarrow>
   add_point_sensor fp rdn self name coords tissue d = Inl (ValueError SensorExists)"
  by (simp add: add_point_sensor_def)

lemma add_point_sensor_on_node_wired:
  "\<exists>m'. add_point_sensor_on_node ''e1'' node_tag c wired_mesh = Inr ((2, 4), m') \<and>
        getPhysicalGroups m' = [(2, 1), (3, 2), (0, 3), (0, 4)]"
  by (simp add: add_point_sensor_on_node_def addDiscreteEntity_def addNodes_def
      addElementsByType_def py_max_def getPhysicalGroups_def addPhysicalGroup_def
      setPhysicalName_def max_tag_def Let_def wired_mesh_def head_mesh_def)

text \<open>
  Whatever the rounding of the two operations, the batch call on the model that has the
  sensor \<open>e1\<close> returns, with the sensor replaced and a further group in the mesh file.
\<close>

lemma add_point_sensors_overwrites_rounded:
  "map_sum id (\<lambda>self'. (map (\<lambda>(n, s). (n, sensor_point s)) (sensors self'),
                        getPhysicalGroups (mesh_file self')))
     (add_point_sensors fp id wired_model [(''e1'', [5, 0, 0])] ''scalp'' 2) =
     Inr ([(''e1'', Group 0 [2] 4)], [(2, 1), (3, 2), (0, 3), (0, 4)])"
proof -
  let ?ns = "[(10, (6/1000, 0, 0)), (11, (2/1000, 0, 0)), (12, (4/1000, 0, 0)),
              (13::int, (0::real, 0::real, 0::real))]"
  let ?old = "[(''e1'', PointSensor ''scalp'' [1/1000, 0, 0] (2/1000, 0, 0) (Group 0 [1] 3) 11)]"
  let ?c = "[mul_milli fp 5, mul_milli fp 0, mul_milli fp 0]"
  have gn: "get_tissue_nodes wired_model wired_mesh ''scalp'' 2 = Inr (map fst ?ns, map snd ?ns)"
    by (simp add: get_tissue_nodes_def wired_model_def wired_mesh_def head_model_def
        head_mesh_def Let_def)
  have ne: "?ns \<noteq> []" by simp
  from add_point_sensor_to_cases [OF ne, of fp "mul_milli fp 5" "mul_milli fp 0" "mul_milli fp 0"
      "''e1''" "''scalp''" ?old wired_mesh]
  obtain i where
    3: "add_point_sensor_to fp ''e1'' ?c (map fst ?ns) (map snd ?ns) ''scalp'' (?old, wired_mesh) =
             (case add_point_sensor_on_node ''e1'' (fst (?ns ! i)) (snd (?ns ! i)) wired_mesh of
                Inl e \<Rightarrow> Inl e
              | Inr ((entity, grp), m') \<Rightarrow>
                  Inr (AList.update ''e1''
                         (PointSensor ''scalp'' ?c (snd (?ns ! i)) (Group 0 [entity] grp)
                            (fst (?ns ! i))) ?old, m'))"
    by blast
  from add_point_sensor_on_node_wired [of "fst (?ns ! i)" "snd (?ns ! i)"]
  obtain m' where
    on: "add_point_sensor_on_node ''e1'' (fst (?ns ! i)) (snd (?ns ! i)) wired_mesh = Inr ((2, 4), m')"
    and g: "getPhysicalGroups m' = [(2, 1), (3, 2), (0, 3), (0, 4)]"
    by blast
  have st: "sensors wired_model = ?old" "mesh_file wired_model = wired_mesh"
    "map_of (tissues wired_model) ''scalp'' \<noteq> None"
    by (simp_all add: wired_model_def head_model_def)
  have "add_point_sensors fp id wired_model [(''e1'', [5, 0, 0])] ''scalp'' 2 =
          Inr (wired_model\<lparr>sensors :=
                 [(''e1'', PointSensor ''scalp'' ?c (snd (?ns ! i)) (Group 0 [2] 4) (fst (?ns ! i)))],
               mesh_file := m'\<rparr>)"
    using st gn 3 on by (simp add: add_point_sensors_def)
  then show ?thesis by (simp add: g)
qed

text \<open>
  Claim C6 holds for \<^verbatim>\<open>add_point_sensor\<close> and fails for the batch
  \<^verbatim>\<open>add_point_sensors\<close>, which has no check of the names: on the model that has the
  sensor \<open>e1\<close>, the single call is refused, and the batch call with the same name
  returns, with the sensor replaced and a further group in the mesh file. The values
  are those of the operations without rounding.
\<close>

theorem add_point_sensors_overwrites:
  "map_of (sensors wired_model) ''e1'' =
     Some (PointSensor ''scalp'' [1/1000, 0, 0] (2/1000, 0, 0) (Group 0 [1] 3) 11) \<and>
   add_point_sensor exact_ops id wired_model ''e1'' [5, 0, 0] ''scalp'' 2 =
     Inl (ValueError SensorExists) \<and>
   map_sum id (\<lambda>self'. (sensors self', getPhysicalGroups (mesh_file self')))
     (add_point_sensors exact_ops id wired_model [(''e1'', [5, 0, 0])] ''scalp'' 2) =
     Inr ([(''e1'', PointSensor ''scalp'' [5/1000, 0, 0] (6/1000, 0, 0) (Group 0 [2] 4) 10)],
          [(2, 1), (3, 2), (0, 3), (0, 4)])"
  by (simp add: sensor_defs exact_ops_def wired_model_def wired_mesh_def head_model_def
      head_mesh_def)

section \<open>Field injection from elements\<close>

lemmas field_defs = field_from_elems_def field_from_elems_checks_def field_types_def
  fill_empty_field_elems_def get_tissue_elems_def nonzero_size_def broadcast_to_row_def
  add_field_view_def reshape_rows_def max_tag_def Let_def

lemma fill_empty_field_elems_raises:
  assumes "get_tissue_elems self m tissue 3 = Inr all_elems_tags"
    and "e \<in> set all_elems_tags" and "e \<notin> set elems_tags"
  shows "fill_empty_field_elems self m tissue elems_tags elems_vals n_vals fill_val =
           Inl (AttributeError ''size'')"
proof -
  have "list_ex (\<lambda>b. b) (map (\<lambda>e. e \<notin> set elems_tags) all_elems_tags)"
    using assms(2,3) by (auto simp: list_ex_iff)
  then show ?thesis
    using assms(1) by (simp add: fill_empty_field_elems_def nonzero_size_def Let_def)
qed

lemma fill_empty_field_elems_covered:
  assumes "get_tissue_elems self m tissue 3 = Inr all_elems_tags"
    and "set all_elems_tags \<subseteq> set elems_tags"
  shows "fill_empty_field_elems self m tissue elems_tags elems_vals n_vals fill_val =
           Inr (elems_tags, elems_vals)"
proof -
  have "\<not> list_ex (\<lambda>b. b) (map (\<lambda>e. e \<notin> set elems_tags) all_elems_tags)"
    using assms(2) by (auto simp: list_ex_iff)
  then show ?thesis
    using assms(1) by (simp add: fill_empty_field_elems_def Let_def)
qed

lemma broadcast_to_row_vector:
  "1 < length fill_val \<Longrightarrow> 1 < k \<Longrightarrow>
   broadcast_to_row fill_val (k * length fill_val) = Inl (ValueError Broadcast)"
  by (auto simp: broadcast_to_row_def)

text \<open>
  Claim C2 fails on the code: the tissue has the tetrahedra 100, 101 and 102, and
  \<^verbatim>\<open>field_from_elems\<close> with values for 100 alone raises in the debug message of
  \<^verbatim>\<open>_fill_empty_field_elems\<close> before any value is filled.
\<close>

theorem field_from_elems_no_fill:
  "get_tissue_elems head_model (mesh_file head_model) ''scalp'' 3 = Inr [100, 101, 102] \<and>
   field_from_elems head_model ''sigma'' ''scalp'' [100] [3/10] (Some [1/10]) ''1'' =
     Inl (AttributeError ''size'')"
  by (simp add: field_defs head_model_def head_mesh_def)

lemma field_from_elems_checks_arity:
  assumes "map_of (tissues self) tissue = Some t" and "map_of (tissue.fields t) name = None"
    and "elems_tags \<noteq> []"
  shows "field_from_elems_checks self name tissue elems_tags elems_vals fill_val =
           Inl (ValueError ValsArity) \<longleftrightarrow>
         length elems_vals div length elems_tags \<notin> {1, 3, 9}"
  using assms
  by (auto simp: field_from_elems_checks_def field_types_def Let_def split: option.splits)

text \<open>
  Claim C3 fails on the code: four values on three tags pass the arity check as a
  scalar field, and ten values on three tags as a vector field, since the quotient is
  truncated; the calls fail later, in the backend and in \<^verbatim>\<open>reshape\<close>.
\<close>

theorem field_from_elems_truncates:
  "field_from_elems_checks head_model ''sigma'' ''scalp'' [100, 101, 102] [1, 2, 3, 4] (Some [0]) =
     Inr (1, SCALAR, [0]) \<and>
   field_from_elems_checks head_model ''sigma'' ''scalp'' [100, 101, 102] [1, 2, 3, 4, 5, 6, 7, 8, 9, 10]
       (Some [0, 0, 0]) =
     Inr (3, VECTOR, [0, 0, 0]) \<and>
   field_from_elems head_model ''sigma'' ''scalp'' [100, 101, 102] [1, 2, 3, 4] (Some [0]) ''1'' =
     Inl BackendError \<and>
   field_from_elems head_model ''sigma'' ''scalp'' [100, 101, 102] [1, 2, 3, 4, 5, 6, 7, 8, 9, 10]
       (Some [0, 0, 0]) ''1'' =
     Inl (ValueError Reshape)"
  by (simp add: field_defs head_model_def head_mesh_def)

section \<open>Interpolation onto barycenters\<close>

lemmas interp_defs = field_from_array_def interp_field_def get_field_coords_def unravel_index_def
  apply_affine_def np_unique_def RegularGridInterpolator_def check_axis_def interpolate_def
  out_of_bounds_def
  assign_masked_def get_tissue_elems_coords_def affine_shape_ok_def to_metres_def eye4_def

lemma np_unique_sorted: "sorted (np_unique xs)" "distinct (np_unique xs)" "set (np_unique xs) = set xs"
  by (simp_all add: np_unique_def)

lemma np_unique_ascending: "sorted_wrt (<) (np_unique xs)"
  by (simp add: strict_sorted_iff np_unique_sorted)

lemma sorted_hd_least:
  assumes "sorted xs" "xs \<noteq> []"
  shows "hd xs = Min (set xs)"
proof -
  from assms(2) obtain x rest where xs: "xs = x # rest" by (cases xs) auto
  with assms(1) have "\<forall>y \<in> set rest. x \<le> y" by simp
  then have "Min (set (x # rest)) = x"
    by (intro Min_eqI) auto
  then show ?thesis by (simp add: xs)
qed

lemma sorted_last_greatest:
  assumes "sorted xs" "xs \<noteq> []"
  shows "last xs = Max (set xs)"
proof -
  have "\<forall>y \<in> set xs. y \<le> last xs"
  proof
    fix y assume "y \<in> set xs"
    then obtain i where i: "i < length xs" "xs ! i = y" by (auto simp: in_set_conv_nth)
    with assms have "xs ! i \<le> xs ! (length xs - 1)"
      by (intro sorted_nth_mono) auto
    with i assms(2) show "y \<le> last xs" by (simp add: last_conv_nth)
  qed
  moreover have "last xs \<in> set xs" using assms(2) by simp
  ultimately have "Max (set xs) = last xs"
    by (intro Max_eqI) auto
  then show ?thesis by simp
qed

lemma np_unique_bounds:
  assumes "xs \<noteq> []"
  shows "np_unique xs \<noteq> []" "hd (np_unique xs) = Min (set xs)" "last (np_unique xs) = Max (set xs)"
proof -
  show ne: "np_unique xs \<noteq> []"
    using assms np_unique_sorted(3) [of xs] by (metis set_empty)
  show "hd (np_unique xs) = Min (set xs)"
    using sorted_hd_least [OF np_unique_sorted(1) ne] by (simp add: np_unique_sorted(3))
  show "last (np_unique xs) = Max (set xs)"
    using sorted_last_greatest [OF np_unique_sorted(1) ne] by (simp add: np_unique_sorted(3))
qed

lemma assign_masked_arity:
  assumes "length fv = (if scalar then 1 else ncomp)"
  shows "assign_masked scalar ncomp result msk fv =
           Inr (map (\<lambda>(r, b). if b then fv else r) (zip result msk))"
  using assms by (simp add: assign_masked_def)

lemma interpolate_fill:
  assumes "grid f = (gx, gy, gz)" "gx \<noteq> []" "gy \<noteq> []" "gz \<noteq> []"
    and "\<not> bounds_error f" and "fill_value f = Some fv"
    and "length fv = (if length (shape_of (grid_values f)) = 3 then 1
                      else last (shape_of (grid_values f)))"
  shows "interpolate kern f xi =
           Inr (map (\<lambda>p. if out_of_bounds (grid f) p then fv
                         else kern (interp_kind f) (grid f) (grid_values f) p) xi)"
proof -
  have "map (\<lambda>(r, b). if b then fv else r)
          (zip (map (kern (interp_kind f) (grid f) (grid_values f)) xi)
               (map (out_of_bounds (grid f)) xi)) =
        map (\<lambda>p. if out_of_bounds (grid f) p then fv
                  else kern (interp_kind f) (grid f) (grid_values f) p) xi"
    by (induction xi) auto
  then show ?thesis
    using assms assign_masked_arity [OF assms(7)]
    by (simp add: interpolate_def Let_def)
qed

text \<open>
  Claim C8, amended. For a \<^verbatim>\<open>fill_val\<close> with as many components as the field has
  (one for a three-dimensional array, the length of the last axis for four dimensions),
  as many different coordinate values per axis as the field has voxels along it, and a
  tissue with volume elements: the interpolant is built over the per-axis coordinate values without
  repetition and in ascending order, so that the first and last value of an axis are
  its least and greatest; the interpolation returns one value per barycenter, and every
  barycenter out of bounds receives exactly \<^verbatim>\<open>fill_val\<close>, for every method.
\<close>

theorem interp_field_fill:
  assumes arity: "length fill_val = (if length (shape_of fld) = 3 then 1 else last (shape_of fld))"
    and ne: "coords \<noteq> []"
    and x: "x = np_unique (map fst coords)"
    and y: "y = np_unique (map (\<lambda>c. fst (snd c)) coords)"
    and z: "z = np_unique (map (\<lambda>c. snd (snd c)) coords)"
    and shp: "take 3 (shape_of fld) = [length x, length y, length z]"
    and tags: "get_tissue_elems self (mesh_file self) tissue 3 = Inr tags"
    and bs: "get_tissue_elems_coords self (mesh_file self) tissue 3 = Inr bs"
  shows "sorted x \<and> distinct x \<and> set x = fst ` set coords \<and>
         sorted y \<and> distinct y \<and> set y = (\<lambda>c. fst (snd c)) ` set coords \<and>
         sorted z \<and> distinct z \<and> set z = (\<lambda>c. snd (snd c)) ` set coords \<and>
         hd x = Min (set x) \<and> last x = Max (set x) \<and>
         hd y = Min (set y) \<and> last y = Max (set y) \<and>
         hd z = Min (set z) \<and> last z = Max (set z) \<and>
         (\<exists>vals. interp_field kern self tissue coords fld method fill_val = Inr (tags, vals) \<and>
                 length vals = length bs \<and>
                 (\<forall>i<length bs. out_of_bounds (x, y, z) (bs ! i) \<longrightarrow> vals ! i = fill_val))"
proof -
  have sx: "sorted x \<and> distinct x \<and> set x = fst ` set coords"
    unfolding x by (simp add: np_unique_sorted)
  have sy: "sorted y \<and> distinct y \<and> set y = (\<lambda>c. fst (snd c)) ` set coords"
    unfolding y by (simp add: np_unique_sorted)
  have sz: "sorted z \<and> distinct z \<and> set z = (\<lambda>c. snd (snd c)) ` set coords"
    unfolding z by (simp add: np_unique_sorted)
  have nx: "x \<noteq> []" and ny: "y \<noteq> []" and nz: "z \<noteq> []"
    unfolding x y z using ne by (simp_all add: np_unique_bounds(1))
  have bx: "hd x = Min (set x) \<and> last x = Max (set x)"
    using sx nx by (simp add: sorted_hd_least sorted_last_greatest)
  have by': "hd y = Min (set y) \<and> last y = Max (set y)"
    using sy ny by (simp add: sorted_hd_least sorted_last_greatest)
  have bz: "hd z = Min (set z) \<and> last z = Max (set z)"
    using sz nz by (simp add: sorted_hd_least sorted_last_greatest)
  let ?f = "\<lparr>grid = (x, y, z), grid_values = fld, interp_kind = method,
             bounds_error = False, fill_value = Some fill_val\<rparr>"
  have asc: "sorted_wrt (<) x \<and> sorted_wrt (<) y \<and> sorted_wrt (<) z"
    unfolding x y z by (simp add: np_unique_ascending)
  have nd: "3 \<le> length (shape_of fld)"
  proof (rule ccontr)
    assume "\<not> 3 \<le> length (shape_of fld)"
    then have "length (take 3 (shape_of fld)) < 3" by simp
    then show False unfolding shp by simp
  qed
  have "take 3 (shape_of fld) ! 0 = length x" "take 3 (shape_of fld) ! 1 = length y"
    "take 3 (shape_of fld) ! 2 = length z"
    unfolding shp by simp_all
  then have ax: "shape_of fld ! 0 = length x" "shape_of fld ! 1 = length y"
    "shape_of fld ! 2 = length z"
    by simp_all
  have built: "RegularGridInterpolator (x, y, z) fld method False (Some fill_val) = Inr ?f"
    using nd ax asc by (simp add: RegularGridInterpolator_def check_axis_def)
  have ev: "interpolate kern ?f bs =
           Inr (map (\<lambda>p. if out_of_bounds (x, y, z) p then fill_val
                         else kern method (x, y, z) fld p) bs)"
    using interpolate_fill [of ?f x y z fill_val kern bs] nx ny nz arity by simp
  have run: "interp_field kern self tissue coords fld method fill_val =
           Inr (tags, map (\<lambda>p. if out_of_bounds (x, y, z) p then fill_val
                              else kern method (x, y, z) fld p) bs)"
    using built ev tags bs x y z by (simp add: interp_field_def Let_def)
  have "\<exists>vals. interp_field kern self tissue coords fld method fill_val = Inr (tags, vals) \<and>
                 length vals = length bs \<and>
                 (\<forall>i<length bs. out_of_bounds (x, y, z) (bs ! i) \<longrightarrow> vals ! i = fill_val)"
    unfolding run by simp
  with sx sy sz bx by' bz show ?thesis by blast
qed

text \<open>The amended claim C8 on the example field, under both methods.\<close>

theorem interp_field_fill_witness:
  "get_tissue_elems head_model (mesh_file head_model) ''scalp'' 3 = Inr [100, 101, 102] \<and>
   get_tissue_elems_coords head_model (mesh_file head_model) ''scalp'' 3 =
     Inr [(1/2000, 1/2000, 1/2000), (2/1000, 0, 0), (0, 0, 0)] \<and>
   np_unique (map fst (get_field_coords [2, 2, 2] (to_metres eye4))) = [0, 1/1000] \<and>
   (\<exists>vals. interp_field flat_kernel head_model ''scalp''
             (get_field_coords [2, 2, 2] (to_metres eye4)) cube_field Linear [0] =
           Inr ([100, 101, 102], vals) \<and> vals ! 1 = [0]) \<and>
   (\<exists>vals. interp_field flat_kernel head_model ''scalp''
             (get_field_coords [2, 2, 2] (to_metres eye4)) cube_field Nearest [0] =
           Inr ([100, 101, 102], vals) \<and> vals ! 1 = [0])"
proof -
  let ?coords = "get_field_coords [2, 2, 2] (to_metres eye4)"
  let ?bs = "[(1/2000, 1/2000, 1/2000), (2/1000, 0, 0), (0::real, 0::real, 0::real)]"
  have c: "?coords = [(0, 0, 0), (0, 0, 1/1000), (0, 1/1000, 0), (0, 1/1000, 1/1000),
                      (1/1000, 0, 0), (1/1000, 0, 1/1000), (1/1000, 1/1000, 0),
                      (1/1000, 1/1000, 1/1000)]"
    by (simp add: get_field_coords_def unravel_index_def apply_affine_def to_metres_def eye4_def
        upt_rec)
  have x: "np_unique (map fst ?coords) = [0, 1/1000]"
    and y: "np_unique (map (\<lambda>c. fst (snd c)) ?coords) = [0, 1/1000]"
    and z: "np_unique (map (\<lambda>c. snd (snd c)) ?coords) = [0, 1/1000]"
    unfolding c by (simp_all add: np_unique_def)
  have ar: "length [0::real] = (if length (shape_of cube_field) = 3 then 1 else last (shape_of cube_field))"
    by (simp add: cube_field_def)
  have ne: "?coords \<noteq> []" unfolding c by simp
  have shp: "take 3 (shape_of cube_field) = [length [0, 1/1000 :: real], length [0, 1/1000 :: real], length [0, 1/1000 :: real]]"
    by (simp add: cube_field_def)
  have tags: "get_tissue_elems head_model (mesh_file head_model) ''scalp'' 3 = Inr [100, 101, 102]"
    by (simp add: get_tissue_elems_def head_model_def head_mesh_def)
  have bs: "get_tissue_elems_coords head_model (mesh_file head_model) ''scalp'' 3 = Inr ?bs"
    by (simp add: get_tissue_elems_coords_def head_model_def head_mesh_def)
  have oob: "out_of_bounds ([0, 1/1000], [0, 1/1000], [0, 1/1000]) (?bs ! 1)"
    by (simp add: out_of_bounds_def)
  note t = interp_field_fill [OF ar ne x [symmetric] y [symmetric] z [symmetric] shp tags bs]
  from t [of flat_kernel Linear] obtain v1 where
    v1: "interp_field flat_kernel head_model ''scalp'' ?coords cube_field Linear [0] =
           Inr ([100, 101, 102], v1)"
    and f1: "\<forall>i<length ?bs. out_of_bounds ([0, 1/1000], [0, 1/1000], [0, 1/1000]) (?bs ! i) \<longrightarrow>
               v1 ! i = [0]"
    by blast
  from t [of flat_kernel Nearest] obtain v2 where
    v2: "interp_field flat_kernel head_model ''scalp'' ?coords cube_field Nearest [0] =
           Inr ([100, 101, 102], v2)"
    and f2: "\<forall>i<length ?bs. out_of_bounds ([0, 1/1000], [0, 1/1000], [0, 1/1000]) (?bs ! i) \<longrightarrow>
               v2 ! i = [0]"
    by blast
  from f1 [rule_format, of 1] oob have "v1 ! 1 = [0]" by simp
  moreover from f2 [rule_format, of 1] oob have "v2 ! 1 = [0]" by simp
  ultimately show ?thesis using tags bs x v1 v2 by blast
qed

text \<open>
  Claim C8 as stated fails for a \<^verbatim>\<open>fill_val\<close> that does not have the components of
  the field, and for coordinates that are not those of a grid along the axes: with two
  fill values on a scalar field and one barycenter out of bounds, the assignment of the
  fill value raises; under the sheared affine the first axis has four coordinate
  values for two voxels, and the interpolant is refused.
\<close>

theorem interp_field_fill_counterexample:
  "interp_field flat_kernel head_model ''scalp'' (get_field_coords [2, 2, 2] (to_metres eye4))
     cube_field Nearest [7, 8] = Inl (ValueError Broadcast) \<and>
   interp_field flat_kernel head_model ''scalp''
     (get_field_coords [2, 2, 2] (to_metres sheared_affine)) cube_field Nearest [0] =
     Inl (ValueError GridShape)"
  by (simp add: interp_defs field_defs cube_field_def flat_kernel_def sheared_affine_def
      head_model_def head_mesh_def upt_rec)

section \<open>Fields from images\<close>

lemma field_from_nii_raises:
  "nib_load nii_path = Some img \<Longrightarrow>
   field_from_nii nib_load kern self name nii_path tissue fill_val formula nearest =
     Inl (NameError ''tissues'')"
  by (simp add: field_from_nii_def)

text \<open>
  Claim C9 fails on the code: with a loadable image \<^verbatim>\<open>field_from_nii\<close> raises
  \<^verbatim>\<open>NameError\<close>, where \<^verbatim>\<open>field_from_array\<close> on the same array, affine and
  arguments adds the field.
\<close>

theorem field_from_nii_name_error:
  "field_from_nii (\<lambda>p. Some (cube_field, eye4)) flat_kernel head_model ''sigma'' ''sigma.nii''
      ''scalp'' [0] ''1'' True = Inl (NameError ''tissues'') \<and>
   map_sum id (\<lambda>self'. map_of (tissues self') ''scalp'')
     (field_from_array flat_kernel head_model ''sigma'' cube_field eye4 ''scalp'' [0] ''1'' True) =
     Inr (Some (Tissue (Group 2 [1] 1) (Group 3 [1] 2) [(''sigma'', Field SCALAR 1 ''1'')]))"
  by (simp add: field_from_nii_def interp_defs field_defs cube_field_def flat_kernel_def
      head_model_def head_mesh_def upt_rec)

end
